theory Spec2Isabelle
  imports Complex_Main "HOL-Library.Sublist" "HOL-Library.Multiset" "HOL-Library.Char_ord" "HOL-Library.Word"
begin

unbundle bit_operations_syntax

section \<open>JavaScript values used by the query pipeline\<close>

text \<open>
  Strings are lists of characters; a character stands for one UTF-16 code unit below 256,
  so \<open>length\<close> is JavaScript's \<open>.length\<close> and \<open>of_char\<close> is \<open>charCodeAt\<close> on such text.
  A double of the source is the real number it denotes, and an arithmetic operation of the
  source is the exact operation followed by the rounding \<open>fl\<close> to the nearest double, which
  the collaborators record carries; results beyond the range of the finite doubles (infinities
  and NaN) are not represented. Integer-valued quantities (dimensions, limits, hashes, token
  counts and their squares) are exact in double precision and are computed without rounding.
  A property that is absent on an object and the empty string are both falsy and the source
  only ever tests truthiness of such fields, so an absent string field is the empty string.
\<close>

datatype error = Error string | RangeError string | TypeError string

text \<open>\<open>haystack.includes(needle)\<close>.\<close>

fun str_includes :: "string \<Rightarrow> string \<Rightarrow> bool" where
  "str_includes [] needle = (needle = [])"
| "str_includes (c # cs) needle = (prefix needle (c # cs) \<or> str_includes cs needle)"

text \<open>White space removed by \<open>trim\<close>: TAB, LF, VT, FF, CR, SPACE and NBSP.\<close>

definition is_space :: "char \<Rightarrow> bool" where
  "is_space c = (of_char c \<in> {9::nat, 10, 11, 12, 13, 32, 160})"

definition trim :: "string \<Rightarrow> string" where
  "trim s = rev (dropWhile is_space (rev (dropWhile is_space s)))"

text \<open>\<open>toLowerCase\<close>: the letters A-Z and the upper-case letters of the Latin-1 block.\<close>

definition lower_char :: "char \<Rightarrow> char" where
  "lower_char c =
     (let n = (of_char c :: nat)
      in if (65 \<le> n \<and> n \<le> 90) \<or> (192 \<le> n \<and> n \<le> 222 \<and> n \<noteq> 215)
         then char_of (n + 32) else c)"

definition toLowerCase :: "string \<Rightarrow> string" where
  "toLowerCase s = map lower_char s"

text \<open>\<open>s.substring(0, n)\<close> for a non-negative \<open>n\<close>.\<close>

definition substring0 :: "string \<Rightarrow> nat \<Rightarrow> string" where
  "substring0 s n = take n s"

text \<open>\<open>xs.slice(0, e)\<close>: a negative end counts from the end of the array.\<close>

definition slice0 :: "'a list \<Rightarrow> int \<Rightarrow> 'a list" where
  "slice0 xs e = (if e < 0 then take (nat (int (length xs) + e)) xs else take (nat e) xs)"

text \<open>Decimal rendering of an integer inside a template literal.\<close>

fun show_nat :: "nat \<Rightarrow> string" where
  "show_nat n = (if n < 10 then [char_of (48 + n)]
                 else show_nat (n div 10) @ [char_of (48 + n mod 10)])"

definition show_int :: "int \<Rightarrow> string" where
  "show_int i = (if i < 0 then CHR ''-'' # show_nat (nat (- i)) else show_nat (nat i))"

text \<open>\<open>Math.round\<close> of a double: the nearest integer, half-way cases towards plus infinity.\<close>

definition math_round :: "real \<Rightarrow> int" where
  "math_round x = \<lfloor>x + 1 / 2\<rfloor>"

text \<open>\<open>strs.join(sep)\<close>.\<close>

fun join :: "string \<Rightarrow> string list \<Rightarrow> string" where
  "join sep [] = []"
| "join sep [s] = s"
| "join sep (s # t # ts) = s @ sep @ join sep (t # ts)"

text \<open>
  \<open>xs.sort(cmp)\<close> is a stable sort: an element is placed in front of the first element of the
  already sorted rest that the comparator does not put before it.
\<close>

fun insert_by :: "('a \<Rightarrow> 'a \<Rightarrow> real) \<Rightarrow> 'a \<Rightarrow> 'a list \<Rightarrow> 'a list" where
  "insert_by cmp x [] = [x]"
| "insert_by cmp x (y # ys) = (if cmp x y \<le> 0 then x # y # ys else y # insert_by cmp x ys)"

fun sort_by :: "('a \<Rightarrow> 'a \<Rightarrow> real) \<Rightarrow> 'a list \<Rightarrow> 'a list" where
  "sort_by cmp [] = []"
| "sort_by cmp (x # xs) = insert_by cmp x (sort_by cmp xs)"

section \<open>Data model\<close>

record metadata =
  title :: string
  summary :: string
  url :: string
  source :: string

text \<open>An entry of \<open>memoryStore\<close>; the map's values in insertion order.\<close>

record entry =
  entry_id :: nat
  entry_text :: string
  vector :: "real list"
  entry_metadata :: metadata

text \<open>A retrieved match as \<open>searchSimilar\<close> delivers it.\<close>

record doc =
  doc_text :: string
  score :: real
  doc_metadata :: metadata

record source_ref =
  ref_title :: string
  ref_url :: string
  ref_score :: real

datatype role = User | Assistant

record chat_message =
  msg_type :: role
  content :: string
  timestamp :: string
  msg_sources :: "source_ref list"

record answer =
  response :: string
  sources :: "source_ref list"

text \<open>The instance fields of \<open>RAGService\<close>.\<close>

record rag =
  useMemoryStorage :: bool
  memoryStore :: "entry list"
  embeddingDim :: "int option"
  jinaApiKey :: string

text \<open>What the embedding endpoint does with a request.\<close>

datatype api_reply = ApiThrows string | ApiNoData | ApiEmbedding "real list"

text \<open>
  The collaborators of one request: the embedding endpoint, the similarity-search service,
  the generative model (whole answer, or fragments followed by an optional failure), the
  error with which the key-value client answers a list command (none when the command is
  carried out), the clock, and the rounding of the machine's arithmetic.
\<close>

record env =
  jina :: "string \<Rightarrow> api_reply"
  qdrant_search :: "real list \<Rightarrow> int \<Rightarrow> error + doc list"
  generateContent :: "string \<Rightarrow> error + string"
  generateContentStream :: "string \<Rightarrow> string list \<times> error option"
  redis_error :: "error option"
  now :: string
  fl :: "real \<Rightarrow> real"

text \<open>Calls to collaborators and callbacks, in the order in which they are made.\<close>

datatype event =
    GenerateEmbedding string
  | SearchSimilar int
  | GenerateContent string
  | GenerateContentStream string
  | OnChunk string
  | LPush string chat_message
  | OnComplete answer

text \<open>The shared state: the service instance, the lists of the key-value store, the call log.\<close>

record world =
  svc :: rag
  redis :: "string \<Rightarrow> chat_message list"
  trace :: "event list"

definition emit :: "event \<Rightarrow> world \<Rightarrow> world" where
  "emit e w = w\<lparr>trace := trace w @ [e]\<rparr>"

section \<open>Key-value store lists\<close>

text \<open>\<open>redisClient.lPush(key, value)\<close>: the value becomes the head of the list.\<close>

definition lPush :: "env \<Rightarrow> string \<Rightarrow> chat_message \<Rightarrow> world \<Rightarrow> (error + unit) \<times> world" where
  "lPush e key msg w =
     (case redis_error e of
        Some err \<Rightarrow> (Inl err, w)
      | None \<Rightarrow> (Inr (), emit (LPush key msg) (w\<lparr>redis := (redis w)(key := msg # redis w key)\<rparr>)))"

text \<open>
  \<open>LRANGE key start stop\<close>: both ends inclusive, negative indices count from the tail,
  indices beyond the list are clipped.
\<close>

definition lrange :: "'a list \<Rightarrow> int \<Rightarrow> int \<Rightarrow> 'a list" where
  "lrange xs start stop =
     (let llen = int (length xs);
          s0 = (if start < 0 then llen + start else start);
          e0 = (if stop < 0 then llen + stop else stop);
          s1 = (if s0 < 0 then 0 else s0)
      in if s1 > e0 \<or> s1 \<ge> llen then []
         else let e1 = (if e0 \<ge> llen then llen - 1 else e0)
              in take (nat (e1 - s1 + 1)) (drop (nat s1) xs))"

definition lRange :: "env \<Rightarrow> string \<Rightarrow> int \<Rightarrow> int \<Rightarrow> world \<Rightarrow> error + chat_message list" where
  "lRange e key start stop w =
     (case redis_error e of Some err \<Rightarrow> Inl err | None \<Rightarrow> Inr (lrange (redis w key) start stop))"

section \<open>Embeddings\<close>

definition truthy :: "int option \<Rightarrow> bool" where
  "truthy d = (case d of None \<Rightarrow> False | Some n \<Rightarrow> n \<noteq> 0)"

text \<open>\<open>d || dflt\<close> on a number that may be \<open>null\<close>.\<close>

definition or_else :: "int option \<Rightarrow> int \<Rightarrow> int" where
  "or_else d dflt = (case d of None \<Rightarrow> dflt | Some n \<Rightarrow> if n = 0 then dflt else n)"

text \<open>Length harmonisation of a provider vector against \<open>embeddingDim\<close>.\<close>

definition harmonize :: "int \<Rightarrow> real list \<Rightarrow> real list" where
  "harmonize d vec =
     (if int (length vec) = d then vec
      else if int (length vec) > d then slice0 vec d
      else vec @ replicate (nat d - length vec) 0)"

text \<open>The \<open>try\<close> block of \<open>generateEmbedding\<close>: the vector and the updated instance, or the thrown message.\<close>

definition embed_primary :: "env \<Rightarrow> rag \<Rightarrow> string \<Rightarrow> string + (real list \<times> rag)" where
  "embed_primary e s text =
     (if jinaApiKey s = [] then Inl ''Missing JINA_API_KEY''
      else case jina e text of
             ApiThrows m \<Rightarrow> Inl m
           | ApiNoData \<Rightarrow> Inl ''Invalid embedding response''
           | ApiEmbedding vec \<Rightarrow>
               if truthy (embeddingDim s) then Inr (harmonize (or_else (embeddingDim s) 0) vec, s)
               else Inr (vec, s\<lparr>embeddingDim := Some (int (length vec))\<rparr>))"

text \<open>The token hash: 32-bit exclusive-or and shifts, the additions in double precision.\<close>

definition xor32 :: "int \<Rightarrow> int \<Rightarrow> int" where
  "xor32 a b = sint ((word_of_int a :: 32 word) XOR word_of_int b)"

definition shl32 :: "int \<Rightarrow> nat \<Rightarrow> int" where
  "shl32 a k = sint (push_bit k (word_of_int a :: 32 word))"

definition hash_step :: "int \<Rightarrow> char \<Rightarrow> int" where
  "hash_step h c =
     (let x = xor32 h (of_char c)
      in x + (shl32 x 1 + shl32 x 4 + shl32 x 7 + shl32 x 8 + shl32 x 24))"

definition token_hash :: "string \<Rightarrow> int" where
  "token_hash t = foldl hash_step 2166136261 t"

definition is_alnum :: "char \<Rightarrow> bool" where
  "is_alnum c = (let n = (of_char c :: nat) in (97 \<le> n \<and> n \<le> 122) \<or> (48 \<le> n \<and> n \<le> 57))"

text \<open>\<open>s.split(/[^a-z0-9]+/)\<close>: the pieces between maximal runs of separators.\<close>

function split_nonalnum :: "string \<Rightarrow> string \<Rightarrow> string list" where
  "split_nonalnum cur [] = [cur]"
| "split_nonalnum cur (c # cs) =
     (if is_alnum c then split_nonalnum (cur @ [c]) cs
      else cur # split_nonalnum [] (dropWhile (\<lambda>c. \<not> is_alnum c) cs))"
  by pat_completeness auto
termination
  by (relation "measure (\<lambda>(cur, s). length s)") (auto simp: less_Suc_eq_le length_dropWhile_le)

definition tokens :: "string \<Rightarrow> string list" where
  "tokens text = filter (\<lambda>t. t \<noteq> []) (split_nonalnum [] (toLowerCase text))"

definition bucket :: "nat \<Rightarrow> string \<Rightarrow> nat" where
  "bucket dimn t = nat \<bar>token_hash t\<bar> mod dimn"

definition bump :: "nat \<Rightarrow> real list \<Rightarrow> string \<Rightarrow> real list" where
  "bump dimn vec t = vec[bucket dimn t := vec ! bucket dimn t + 1]"

definition l2norm :: "env \<Rightarrow> real list \<Rightarrow> real" where
  "l2norm e vec = (let n = fl e (sqrt (foldl (\<lambda>s v. s + v * v) 0 vec)) in if n = 0 then 1 else n)"

text \<open>The \<open>catch\<close> block of \<open>generateEmbedding\<close>; \<open>new Array(dim)\<close> throws outside 0 .. 2^32 - 1.\<close>

definition fallback_embedding :: "env \<Rightarrow> rag \<Rightarrow> string \<Rightarrow> error + real list" where
  "fallback_embedding e s text =
     (let dimn = or_else (embeddingDim s) 1024
      in if dimn < 0 \<or> dimn \<ge> 2 ^ 32 then Inl (RangeError ''Invalid array length'')
         else let vec = foldl (bump (nat dimn)) (replicate (nat dimn) 0) (tokens text);
                  norm = l2norm e vec
              in Inr (map (\<lambda>v. fl e (v / norm)) vec))"

definition generateEmbedding :: "env \<Rightarrow> string \<Rightarrow> world \<Rightarrow> (error + real list) \<times> world" where
  "generateEmbedding e text w0 =
     (let w = emit (GenerateEmbedding text) w0
      in case embed_primary e (svc w) text of
           Inr (vec, s') \<Rightarrow> (Inr vec, w\<lparr>svc := s'\<rparr>)
         | Inl m \<Rightarrow> (fallback_embedding e (svc w) text, w))"

section \<open>Similarity search\<close>

text \<open>
  The \<open>cosine\<close> closure: components missing from the second vector count as 0; every
  product, sum, square root and quotient is rounded.
\<close>

definition cosine_step :: "env \<Rightarrow> real list \<Rightarrow> real list \<Rightarrow> real \<times> real \<times> real \<Rightarrow> nat \<Rightarrow> real \<times> real \<times> real" where
  "cosine_step e a b acc i =
     (case acc of (dot, na, nb) \<Rightarrow>
        let av = a ! i; bv = (if i < length b then b ! i else 0)
        in (fl e (dot + fl e (av * bv)), fl e (na + fl e (av * av)), fl e (nb + fl e (bv * bv))))"

definition cosine :: "env \<Rightarrow> real list \<Rightarrow> real list \<Rightarrow> real" where
  "cosine e a b =
     (case foldl (cosine_step e a b) (0, 0, 0) [0 ..< length a] of (dot, na, nb) \<Rightarrow>
        let d = fl e (fl e (sqrt na) * fl e (sqrt nb)); denom = (if d = 0 then 1 else d)
        in fl e (dot / denom))"

definition score_entry :: "env \<Rightarrow> real list \<Rightarrow> entry \<Rightarrow> doc" where
  "score_entry e q en =
     \<lparr>doc_text = entry_text en, score = cosine e q (vector en), doc_metadata = entry_metadata en\<rparr>"

text \<open>
  The comparator \<open>(x, y) => y.score - x.score\<close>; the difference of two doubles has the sign
  of the exact difference, which is all the sort looks at.
\<close>

definition by_score_desc :: "doc \<Rightarrow> doc \<Rightarrow> real" where
  "by_score_desc x y = score y - score x"

definition searchSimilar :: "env \<Rightarrow> real list \<Rightarrow> int \<Rightarrow> world \<Rightarrow> (error + doc list) \<times> world" where
  "searchSimilar e queryEmbedding topK w0 =
     (let w = emit (SearchSimilar topK) w0
      in if useMemoryStorage (svc w) then
           (if memoryStore (svc w) = [] then (Inr [], w)
            else let scored = map (score_entry e queryEmbedding) (memoryStore (svc w))
                 in (Inr (slice0 (sort_by by_score_desc scored) topK), w))
         else (qdrant_search e queryEmbedding topK, w))"

section \<open>Prompts and the templated answer\<close>

definition createPrompt :: "string \<Rightarrow> string \<Rightarrow> string" where
  "createPrompt query context =
     ''You are a helpful news assistant. Answer the user's question based on the provided news context. \<newline>'' @
     ''If the context doesn't contain enough information to answer the question, say so politely.\<newline>\<newline>'' @
     ''Context from recent news articles:\<newline>'' @ context @ ''\<newline>\<newline>'' @
     ''User Question: '' @ query @ ''\<newline>\<newline>'' @
     ''Please provide a comprehensive answer based on the news context above. If you reference specific information, try to be specific about which news source or event you're referring to.\<newline>\<newline>'' @
     ''Answer:''"

definition createGeneralPrompt :: "string \<Rightarrow> string" where
  "createGeneralPrompt query =
     ''You are a friendly and knowledgeable AI assistant. The user is asking: \"'' @ query @ ''\"\<newline>\<newline>'' @
     ''Please provide a helpful, informative, and engaging response. Be conversational, clear, and comprehensive. If the question is about recent news or current events, politely explain that you don't have access to real-time news data, but offer to provide general information about the topic or suggest reliable news sources.\<newline>\<newline>'' @
     ''Guidelines:\<newline>'' @
     ''- Be friendly and conversational\<newline>'' @
     ''- Provide detailed, helpful answers\<newline>'' @
     ''- Use examples when appropriate\<newline>'' @
     ''- If unsure, ask clarifying questions\<newline>'' @
     ''- Keep responses well-structured and easy to read\<newline>\<newline>'' @
     ''Answer:''"

definition title_or_default :: "metadata \<Rightarrow> string" where
  "title_or_default md = (if title md = [] then ''News Article'' else title md)"

text \<open>What one pass of the \<open>forEach\<close> body appends to the answer.\<close>

definition fallback_entry :: "env \<Rightarrow> nat \<Rightarrow> doc \<Rightarrow> string" where
  "fallback_entry e index d =
     (let md = doc_metadata d
      in show_nat (index + 1) @ ''. **'' @ title_or_default md @ ''**\<newline>'' @
         (if summary md \<noteq> []
          then ''   '' @ substring0 (summary md) 200 @ (if length (summary md) > 200 then ''...'' else []) @ ''\<newline>''
          else []) @
         (if source md \<noteq> [] then ''   Source: '' @ source md @ ''\<newline>'' else []) @
         (if url md \<noteq> [] then ''   Read more: '' @ url md @ ''\<newline>'' else []) @
         ''   Relevance: '' @ show_int (math_round (fl e (score d * 100))) @ ''%\<newline>\<newline>'')"

fun for_each_doc :: "env \<Rightarrow> nat \<Rightarrow> doc list \<Rightarrow> string \<Rightarrow> string" where
  "for_each_doc e index [] resp = resp"
| "for_each_doc e index (d # ds) resp = for_each_doc e (Suc index) ds (resp @ fallback_entry e index d)"

definition fallback_header :: string where
  "fallback_header = ''I apologize, but I'm currently experiencing API limitations. However, I can provide you with some relevant information based on the news articles I have:\<newline>\<newline>''"

definition fallback_intro :: string where
  "fallback_intro = ''Here are some relevant news articles I found:\<newline>\<newline>''"

definition fallback_footer :: "nat \<Rightarrow> string" where
  "fallback_footer n = ''Based on these '' @ show_nat n @ '' relevant articles, I can help answer questions about recent technology developments, news trends, and current events. Please try asking more specific questions about the topics mentioned above.''"

definition fallback_no_matches :: string where
  "fallback_no_matches =
     ''Unfortunately, I couldn't find specific articles matching your query at the moment. Please try rephrasing your question or ask about general news topics like:\<newline>'' @
     ''- Technology developments\<newline>'' @
     ''- Business news\<newline>'' @
     ''- Current events\<newline>'' @
     ''- Breaking news\<newline>''"

definition createFallbackResponse :: "env \<Rightarrow> string \<Rightarrow> doc list \<Rightarrow> string" where
  "createFallbackResponse e query similarDocs =
     (let resp = fallback_header
      in if length similarDocs > 0
         then for_each_doc e 0 (slice0 similarDocs 3) (resp @ fallback_intro) @ fallback_footer (length similarDocs)
         else resp @ fallback_no_matches)"

section \<open>The query pipeline\<close>

definition message :: "error \<Rightarrow> string" where
  "message err = (case err of Error m \<Rightarrow> m | RangeError m \<Rightarrow> m | TypeError m \<Rightarrow> m)"

text \<open>The test of the inner \<open>catch\<close> that selects the templated answer.\<close>

definition degradable :: "error \<Rightarrow> bool" where
  "degradable err =
     (str_includes (message err) ''429'' \<or> str_includes (message err) ''quota'' \<or>
      str_includes (message err) ''API_KEY_INVALID'' \<or> str_includes (message err) ''expired'' \<or>
      str_includes (message err) ''overloaded'' \<or> str_includes (message err) ''503'')"

definition source_of :: "doc \<Rightarrow> source_ref" where
  "source_of d = \<lparr>ref_title = title_or_default (doc_metadata d), ref_url = url (doc_metadata d), ref_score = score d\<rparr>"

definition assistant_message :: "env \<Rightarrow> string \<Rightarrow> doc list \<Rightarrow> chat_message" where
  "assistant_message e text similarDocs =
     \<lparr>msg_type = Assistant, content = text, timestamp = now e, msg_sources = map source_of similarDocs\<rparr>"

text \<open>
  The first block of \<open>processQuery\<close> and of \<open>processQueryWithStreaming\<close>: the context string and
  the matches.
\<close>

definition retrieve :: "env \<Rightarrow> string \<Rightarrow> world \<Rightarrow> (error + string \<times> doc list) \<times> world" where
  "retrieve e query w =
     (if useMemoryStorage (svc w)
      then (Inr (''No specific news articles available in memory storage.'', []), w)
      else case generateEmbedding e query w of
             (Inl err, w1) \<Rightarrow> (Inl err, w1)
           | (Inr queryEmbedding, w1) \<Rightarrow>
               (case searchSimilar e queryEmbedding 5 w1 of
                  (Inl err, w2) \<Rightarrow> (Inl err, w2)
                | (Inr similarDocs, w2) \<Rightarrow> (Inr (join ''\<newline>\<newline>'' (map doc_text similarDocs), similarDocs), w2)))"

definition choose_prompt :: "rag \<Rightarrow> string \<Rightarrow> string \<Rightarrow> string" where
  "choose_prompt s query context =
     (if useMemoryStorage s then createGeneralPrompt query else createPrompt query context)"

text \<open>The inner \<open>try\<close>/\<open>catch\<close> of \<open>processQuery\<close>.\<close>

definition generate_answer :: "env \<Rightarrow> string \<Rightarrow> string \<Rightarrow> doc list \<Rightarrow> world \<Rightarrow> (error + string) \<times> world" where
  "generate_answer e query context similarDocs w =
     (let prompt = choose_prompt (svc w) query context;
          w1 = emit (GenerateContent prompt) w
      in case generateContent e prompt of
           Inr text \<Rightarrow> (Inr text, w1)
         | Inl err \<Rightarrow>
             if degradable err then (Inr (createFallbackResponse e query similarDocs), w1)
             else (Inl err, w1))"

definition processQuery :: "env \<Rightarrow> string \<Rightarrow> string \<Rightarrow> world \<Rightarrow> (error + answer) \<times> world" where
  "processQuery e query sessionId w =
     (case retrieve e query w of
        (Inl err, w1) \<Rightarrow> (Inl err, w1)
      | (Inr (context, similarDocs), w1) \<Rightarrow>
          (case generate_answer e query context similarDocs w1 of
             (Inl err, w2) \<Rightarrow> (Inl err, w2)
           | (Inr text, w2) \<Rightarrow>
               (case lPush e (''chat:'' @ sessionId) (assistant_message e text similarDocs) w2 of
                  (Inl err, w3) \<Rightarrow> (Inl err, w3)
                | (Inr u, w3) \<Rightarrow> (Inr \<lparr>response = text, sources = map source_of similarDocs\<rparr>, w3))))"

text \<open>The \<open>for await\<close> loop: each fragment is added to \<open>fullResponse\<close> and handed to \<open>onChunk\<close>.\<close>

fun consume_stream :: "string list \<Rightarrow> string \<Rightarrow> world \<Rightarrow> string \<times> world" where
  "consume_stream [] fullResponse w = (fullResponse, w)"
| "consume_stream (chunkText # rest) fullResponse w =
     consume_stream rest (fullResponse @ chunkText) (emit (OnChunk chunkText) w)"

text \<open>The inner \<open>try\<close>/\<open>catch\<close> of \<open>processQueryWithStreaming\<close>.\<close>

definition stream_answer :: "env \<Rightarrow> string \<Rightarrow> string \<Rightarrow> doc list \<Rightarrow> world \<Rightarrow> (error + string) \<times> world" where
  "stream_answer e query context similarDocs w =
     (let prompt = choose_prompt (svc w) query context;
          w1 = emit (GenerateContentStream prompt) w
      in case generateContentStream e prompt of (chunks, failure) \<Rightarrow>
           (case consume_stream chunks [] w1 of (fullResponse, w2) \<Rightarrow>
              (case failure of
                 None \<Rightarrow> (Inr fullResponse, w2)
               | Some err \<Rightarrow>
                   if degradable err
                   then let fallback = createFallbackResponse e query similarDocs
                        in (Inr fallback, emit (OnChunk fallback) w2)
                   else (Inl err, w2))))"

definition processQueryWithStreaming :: "env \<Rightarrow> string \<Rightarrow> string \<Rightarrow> world \<Rightarrow> (error + unit) \<times> world" where
  "processQueryWithStreaming e query sessionId w =
     (case retrieve e query w of
        (Inl err, w1) \<Rightarrow> (Inl err, w1)
      | (Inr (context, similarDocs), w1) \<Rightarrow>
          (case stream_answer e query context similarDocs w1 of
             (Inl err, w2) \<Rightarrow> (Inl err, w2)
           | (Inr fullResponse, w2) \<Rightarrow>
               (case lPush e (''chat:'' @ sessionId) (assistant_message e fullResponse similarDocs) w2 of
                  (Inl err, w3) \<Rightarrow> (Inl err, w3)
                | (Inr u, w3) \<Rightarrow>
                    (Inr (), emit (OnComplete \<lparr>response = fullResponse, sources = map source_of similarDocs\<rparr>) w3))))"

section \<open>Chat history\<close>

definition getChatHistory :: "env \<Rightarrow> string \<Rightarrow> int \<Rightarrow> world \<Rightarrow> error + chat_message list" where
  "getChatHistory e sessionId limit w =
     (case lRange e (''chat:'' @ sessionId) 0 (limit - 1) w of
        Inl err \<Rightarrow> Inl err
      | Inr messages \<Rightarrow> Inr (rev messages))"

section \<open>Entry points\<close>

text \<open>
  The process environment read by the constructor; \<open>EMBEDDING_DIM\<close> is the result of
  \<open>parseInt\<close>, \<open>None\<close> standing for \<open>NaN\<close>.
\<close>

record config =
  USE_MEMORY_STORAGE :: string
  QDRANT_URL :: string
  REDIS_URL :: string
  JINA_API_KEY :: string
  EMBEDDING_DIM :: "int option"

definition new_RAGService :: "config \<Rightarrow> rag" where
  "new_RAGService c =
     \<lparr>useMemoryStorage = (USE_MEMORY_STORAGE c = ''true'' \<or> QDRANT_URL c = []),
      memoryStore = [],
      embeddingDim = (if truthy (EMBEDDING_DIM c) then EMBEDDING_DIM c else None),
      jinaApiKey = JINA_API_KEY c\<rparr>"

text \<open>
  The module \<open>config/redis\<close> exports its in-memory stand-in when \<open>USE_MEMORY_STORAGE\<close> is
  \<open>'true'\<close> or \<open>REDIS_URL\<close> is unset. The stand-in has \<open>lpush\<close> and \<open>lrange\<close> but no
  \<open>lPush\<close>, so every \<open>redisClient.lPush\<close> of the routes and of the service throws a
  \<open>TypeError\<close> there. Otherwise the Redis client is exported, and stays exported when its
  connection fails.
\<close>

definition memory_client :: "config \<Rightarrow> bool" where
  "memory_client c = (USE_MEMORY_STORAGE c = ''true'' \<or> REDIS_URL c = [])"

definition client_env :: "config \<Rightarrow> env \<Rightarrow> env" where
  "client_env c e =
     (if memory_client c then e\<lparr>redis_error := Some (TypeError ''redisClient.lPush is not a function'')\<rparr>
      else e)"

definition user_message :: "env \<Rightarrow> string \<Rightarrow> chat_message" where
  "user_message e text = \<lparr>msg_type = User, content = text, timestamp = now e, msg_sources = []\<rparr>"

datatype http_reply =
    Status200 string answer
  | Status400 string
  | Status500 string

text \<open>\<open>!message || !message.trim()\<close> on the \<open>message\<close> field of a request body.\<close>

definition blank :: "string option \<Rightarrow> bool" where
  "blank m = (case m of None \<Rightarrow> True | Some s \<Rightarrow> s = [] \<or> trim s = [])"

text \<open>\<open>POST /api/chat/message\<close>; \<open>uuid\<close> is the identifier \<open>uuidv4()\<close> would draw.\<close>

definition post_message :: "config \<Rightarrow> env \<Rightarrow> string \<Rightarrow> string option \<Rightarrow> string option \<Rightarrow> world \<Rightarrow> http_reply \<times> world" where
  "post_message c e uuid msg sessionId w =
     (if blank msg then (Status400 ''Message is required'', w)
      else let text = (case msg of Some s \<Rightarrow> s | None \<Rightarrow> []);
               finalSessionId = (case sessionId of Some s \<Rightarrow> (if s = [] then uuid else s) | None \<Rightarrow> uuid)
           in case lPush (client_env c e) (''chat:'' @ finalSessionId) (user_message e text) w of
                (Inl err, w1) \<Rightarrow> (Status500 ''Failed to process message'', w1)
              | (Inr u, w1) \<Rightarrow>
                  (case processQuery (client_env c e) text finalSessionId (w1\<lparr>svc := new_RAGService c\<rparr>) of
                     (Inl err, w2) \<Rightarrow> (Status500 ''Failed to process message'', w2)
                   | (Inr result, w2) \<Rightarrow> (Status200 finalSessionId result, w2)))"

text \<open>
  The \<open>chat-message\<close> handler of the socket server; \<open>Inl\<close> stands for the emitted
  \<open>chat-error\<close> event.
\<close>

definition on_chat_message :: "config \<Rightarrow> env \<Rightarrow> string \<Rightarrow> string \<Rightarrow> world \<Rightarrow> (error + unit) \<times> world" where
  "on_chat_message c e sessionId msg w =
     (case lPush (client_env c e) (''chat:'' @ sessionId) (user_message e msg) w of
        (Inl err, w1) \<Rightarrow> (Inl err, w1)
      | (Inr u, w1) \<Rightarrow>
          processQueryWithStreaming (client_env c e) msg sessionId (w1\<lparr>svc := new_RAGService c\<rparr>))"

text \<open>A session's transcript after the given messages were appended one after the other.\<close>

fun push_all :: "env \<Rightarrow> string \<Rightarrow> chat_message list \<Rightarrow> world \<Rightarrow> world" where
  "push_all e key [] w = w"
| "push_all e key (m # ms) w = push_all e key ms (snd (lPush e key m w))"

section \<open>Reference descriptions\<close>

text \<open>
  The inputs on which \<open>generateEmbedding\<close> reaches its \<open>catch\<close> block: no credential, a
  failed request, or a reply without data.
\<close>

definition fallback_path :: "env \<Rightarrow> rag \<Rightarrow> string \<Rightarrow> bool" where
  "fallback_path e s text =
     (jinaApiKey s = [] \<or>
      (case jina e text of ApiEmbedding vec \<Rightarrow> False | ApiThrows m \<Rightarrow> True | ApiNoData \<Rightarrow> True))"

text \<open>
  Tokens as the specification words them: the lower-cased text is cut at its non-alphanumeric
  characters, so the tokens are its maximal runs of the characters a-z and 0-9.
\<close>

definition alphanumeric :: "char \<Rightarrow> bool" where
  "alphanumeric c = (CHR ''a'' \<le> c \<and> c \<le> CHR ''z'' \<or> CHR ''0'' \<le> c \<and> c \<le> CHR ''9'')"

definition lower_case :: "char \<Rightarrow> char" where
  "lower_case c = (if CHR ''A'' \<le> c \<and> c \<le> CHR ''Z'' then char_of (of_char c + (32::nat)) else c)"

function runs :: "('a \<Rightarrow> bool) \<Rightarrow> 'a list \<Rightarrow> 'a list list" where
  "runs P s =
     (case dropWhile (\<lambda>c. \<not> P c) s of
        [] \<Rightarrow> []
      | c # cs \<Rightarrow> (c # takeWhile P cs) # runs P (dropWhile P cs))"
  by pat_completeness auto
termination
proof (relation "measure (\<lambda>(P, s). length s)")
  show "wf (measure (\<lambda>(P, s). length s))" by simp
next
  fix P :: "'a \<Rightarrow> bool" and s :: "'a list" and c cs
  assume a: "dropWhile (\<lambda>c. \<not> P c) s = c # cs"
  have "length (dropWhile P cs) \<le> length cs" by (rule length_dropWhile_le)
  moreover have "length (c # cs) \<le> length s"
    using length_dropWhile_le [of "\<lambda>c. \<not> P c" s] a by simp
  ultimately show "((P, dropWhile P cs), (P, s)) \<in> measure (\<lambda>(P, s). length s)" by simp
qed

definition spec_tokens :: "string \<Rightarrow> string list" where
  "spec_tokens text = runs alphanumeric (map lower_case text)"

text \<open>
  The fallback embedding as the specification words it: a bag-of-tokens count vector, the
  bucket of a token being its hash modulo the dimension, divided by its Euclidean norm.
\<close>

definition token_count :: "nat \<Rightarrow> string list \<Rightarrow> nat \<Rightarrow> nat" where
  "token_count dimn toks i = length (filter (\<lambda>t. nat \<bar>token_hash t\<bar> mod dimn = i) toks)"

definition spec_fallback_vector :: "(real \<Rightarrow> real) \<Rightarrow> nat \<Rightarrow> string \<Rightarrow> real list" where
  "spec_fallback_vector rnd dimn text =
     (let counts = map (\<lambda>i. real (token_count dimn (spec_tokens text) i)) [0 ..< dimn];
          n = rnd (sqrt (sum_list (map (\<lambda>c. c * c) counts)))
      in map (\<lambda>c. rnd (c / (if n = 0 then 1 else n))) counts)"


section \<open>Reading the call log\<close>

definition is_retrieval :: "event \<Rightarrow> bool" where
  "is_retrieval ev = (case ev of GenerateEmbedding t \<Rightarrow> True | SearchSimilar k \<Rightarrow> True | _ \<Rightarrow> False)"

definition is_transcript_write :: "event \<Rightarrow> bool" where
  "is_transcript_write ev = (case ev of LPush k m \<Rightarrow> True | _ \<Rightarrow> False)"

definition is_completion :: "event \<Rightarrow> bool" where
  "is_completion ev = (case ev of OnComplete a \<Rightarrow> True | _ \<Rightarrow> False)"

text \<open>The source list handed to \<open>onComplete\<close>, empty for every other event.\<close>

definition delivered_sources :: "event \<Rightarrow> source_ref list" where
  "delivered_sources ev = (case ev of OnComplete a \<Rightarrow> sources a | _ \<Rightarrow> [])"

text \<open>The fragments handed to \<open>onChunk\<close> and the answers handed to \<open>onComplete\<close>, in order.\<close>

definition delivered_chunks :: "event list \<Rightarrow> string list" where
  "delivered_chunks tr = concat (map (\<lambda>ev. case ev of OnChunk c \<Rightarrow> [c] | _ \<Rightarrow> []) tr)"

definition completions :: "event list \<Rightarrow> answer list" where
  "completions tr = concat (map (\<lambda>ev. case ev of OnComplete a \<Rightarrow> [a] | _ \<Rightarrow> []) tr)"

section \<open>Sample collaborators and states\<close>

text \<open>
  In the samples every intermediate result of the arithmetic is itself a double, so the
  rounding of the sample collaborators changes nothing.
\<close>

definition sample_env :: env where
  "sample_env =
     \<lparr>jina = (\<lambda>t. ApiNoData),
      qdrant_search = (\<lambda>v k. Inr []),
      generateContent = (\<lambda>p. Inr ''Fine.''),
      generateContentStream = (\<lambda>p. ([''Fi'', ''ne.''], None)),
      redis_error = None,
      now = ''2024-05-01T10:00:00.000Z'',
      fl = (\<lambda>x. x)\<rparr>"

definition sample_meta :: "string \<Rightarrow> metadata" where
  "sample_meta t = \<lparr>title = t, summary = ''Rates rose.'', url = ''https://news.example/a'', source = ''Wire''\<rparr>"

definition sample_store :: "entry list" where
  "sample_store =
     [\<lparr>entry_id = 1, entry_text = ''alpha'', vector = [0, 1], entry_metadata = sample_meta ''A''\<rparr>,
      \<lparr>entry_id = 2, entry_text = ''beta'', vector = [1, 0], entry_metadata = sample_meta ''B''\<rparr>,
      \<lparr>entry_id = 3, entry_text = ''gamma'', vector = [2, 0], entry_metadata = sample_meta ''C''\<rparr>]"

definition memory_world :: world where
  "memory_world =
     \<lparr>svc = \<lparr>useMemoryStorage = True, memoryStore = sample_store, embeddingDim = None, jinaApiKey = []\<rparr>,
      redis = (\<lambda>k. []),
      trace = []\<rparr>"

definition indexed_world :: world where
  "indexed_world =
     \<lparr>svc = \<lparr>useMemoryStorage = False, memoryStore = [], embeddingDim = Some 4, jinaApiKey = ''key''\<rparr>,
      redis = (\<lambda>k. []),
      trace = []\<rparr>"

definition msg_a :: chat_message where
  "msg_a = \<lparr>msg_type = User, content = ''first'', timestamp = ''t1'', msg_sources = []\<rparr>"

definition msg_b :: chat_message where
  "msg_b = \<lparr>msg_type = Assistant, content = ''second'', timestamp = ''t2'', msg_sources = []\<rparr>"

definition msg_c :: chat_message where
  "msg_c = \<lparr>msg_type = User, content = ''third'', timestamp = ''t3'', msg_sources = []\<rparr>"

definition offline_world :: world where
  "offline_world =
     \<lparr>svc = \<lparr>useMemoryStorage = False, memoryStore = [], embeddingDim = Some 4, jinaApiKey = []\<rparr>,
      redis = (\<lambda>k. []),
      trace = []\<rparr>"

definition embedding_env :: "real list \<Rightarrow> env" where
  "embedding_env vec = sample_env\<lparr>jina := (\<lambda>t. ApiEmbedding vec)\<rparr>"

definition rate_limited_env :: env where
  "rate_limited_env = sample_env\<lparr>generateContent := (\<lambda>p. Inl (Error ''[429 Too Many Requests] quota exceeded''))\<rparr>"

definition store_down_env :: env where
  "store_down_env = rate_limited_env\<lparr>redis_error := Some (Error ''The client is closed'')\<rparr>"

definition sample_docs :: "doc list" where
  "sample_docs =
     [\<lparr>doc_text = ''Rates rose by 25 basis points.'', score = 0.875, doc_metadata = sample_meta ''Central Bank raises rates''\<rparr>,
      \<lparr>doc_text = ''A new accelerator chip.'', score = 0.5,
       doc_metadata = \<lparr>title = [], summary = [], url = [], source = []\<rparr>\<rparr>]"

definition failing_indexed_env :: env where
  "failing_indexed_env =
     (embedding_env [1, 0, 0, 0])
       \<lparr>qdrant_search := (\<lambda>v k. Inr sample_docs),
        generateContent := (\<lambda>p. Inl (Error ''[429 Too Many Requests] quota exceeded''))\<rparr>"

definition broken_stream_env :: env where
  "broken_stream_env =
     sample_env\<lparr>generateContentStream := (\<lambda>p. ([''Partial ''], Some (Error ''[503 Service Unavailable] The model is overloaded'')))\<rparr>"

definition sample_config :: config where
  "sample_config =
     \<lparr>USE_MEMORY_STORAGE = [], QDRANT_URL = [], REDIS_URL = ''redis://localhost:6379'',
      JINA_API_KEY = [], EMBEDDING_DIM = None\<rparr>"

section \<open>Chat history windows\<close>

lemma redis_push_all:
  "redis_error e = None \<Longrightarrow> redis (push_all e key ms w) key = rev ms @ redis w key"
  by (induction ms arbitrary: w) (simp_all add: lPush_def emit_def)

lemma lrange_whole: "xs \<noteq> [] \<Longrightarrow> lrange xs 0 (- 1) = xs"
  by (cases xs) (simp_all add: lrange_def Let_def)

lemma lrange_front: "1 \<le> n \<Longrightarrow> lrange xs 0 (n - 1) = take (nat n) xs"
  by (simp add: lrange_def Let_def)

text \<open>
  C7, amended to limits of at least 1. After the messages \<open>ms\<close> were appended to an empty
  transcript of a reachable store, \<open>getChatHistory\<close> with limit \<open>L \<ge> 1\<close> returns the
  \<open>L\<close> most recently pushed entries reversed: the last \<open>min M L\<close> messages, oldest first.
\<close>

theorem getChatHistory_window:
  assumes "redis_error e = None"
    and "redis w (''chat:'' @ sessionId) = []"
    and "1 \<le> L"
  shows "getChatHistory e sessionId L (push_all e (''chat:'' @ sessionId) ms w)
           = Inr (rev (take (nat L) (rev ms))) \<and>
         rev (take (nat L) (rev ms)) = drop (length ms - nat L) ms \<and>
         length (rev (take (nat L) (rev ms))) = min (length ms) (nat L)"
  using assms
  by (simp add: getChatHistory_def lRange_def redis_push_all lrange_front take_rev min.commute)

theorem getChatHistory_window_witness:
  "redis_error sample_env = None \<and> redis memory_world (''chat:'' @ ''s1'') = [] \<and> (1::int) \<le> 2 \<and>
   getChatHistory sample_env ''s1'' 2 (push_all sample_env (''chat:'' @ ''s1'') [msg_a, msg_b, msg_c] memory_world)
     = Inr [msg_b, msg_c]"
  using getChatHistory_window [of sample_env memory_world "''s1''" 2 "[msg_a, msg_b, msg_c]"]
  by (simp add: sample_env_def memory_world_def)

text \<open>
  C7 as stated fails at limit 0: a transcript of two messages is returned whole, not
  \<open>min 2 0 = 0\<close> messages.
\<close>

theorem getChatHistory_limit0_counterexample:
  "getChatHistory sample_env ''s1'' 0 (push_all sample_env (''chat:'' @ ''s1'') [msg_a, msg_b] memory_world)
     = Inr [msg_a, msg_b] \<and>
   length [msg_a, msg_b] \<noteq> min (length [msg_a, msg_b]) (nat 0)"
  by (simp add: getChatHistory_def lRange_def lrange_def lPush_def emit_def sample_env_def memory_world_def)

text \<open>
  C10. For a transcript of \<open>M \<ge> 1\<close> messages, limit 0 reads the range 0 to -1, which is the
  whole list: all messages come back, oldest first.
\<close>

theorem getChatHistory_limit0_returns_all:
  assumes "redis_error e = None"
    and "redis w (''chat:'' @ sessionId) = []"
    and "ms \<noteq> []"
  shows "lrange (redis (push_all e (''chat:'' @ sessionId) ms w) (''chat:'' @ sessionId)) 0 (0 - 1) = rev ms \<and>
         getChatHistory e sessionId 0 (push_all e (''chat:'' @ sessionId) ms w) = Inr ms"
  using assms by (simp add: getChatHistory_def lRange_def redis_push_all lrange_whole)

theorem getChatHistory_limit0_returns_all_witness:
  "redis_error sample_env = None \<and> redis memory_world (''chat:'' @ ''s2'') = [] \<and> [msg_a, msg_b, msg_c] \<noteq> [] \<and>
   getChatHistory sample_env ''s2'' 0 (push_all sample_env (''chat:'' @ ''s2'') [msg_a, msg_b, msg_c] memory_world)
     = Inr [msg_a, msg_b, msg_c]"
  using getChatHistory_limit0_returns_all [of sample_env memory_world "''s2''" "[msg_a, msg_b, msg_c]"]
  by (simp add: sample_env_def memory_world_def)

section \<open>Top-k search of the in-memory store\<close>




















section \<open>Embedding generation\<close>

lemma embed_primary_fallback:
  "fallback_path e s text \<longleftrightarrow> (\<exists>m. embed_primary e s text = Inl m)"
  by (auto simp: fallback_path_def embed_primary_def split: api_reply.splits)

lemma length_foldl_bump: "length (foldl (bump d) vec toks) = length vec"
  by (induction toks arbitrary: vec) (simp_all add: bump_def)

text \<open>The counting loop adds to each component the number of tokens that fall into it.\<close>

lemma nth_foldl_bump:
  "length vec = d \<Longrightarrow> i < d \<Longrightarrow>
   foldl (bump d) vec toks ! i = vec ! i + real (token_count d toks i)"
proof (induction toks arbitrary: vec)
  case Nil
  then show ?case by (simp add: token_count_def)
next
  case (Cons t ts)
  have b: "bucket d t < length vec" using Cons.prems by (simp add: bucket_def)
  have len: "length (bump d vec t) = d" using Cons.prems by (simp add: bump_def)
  have "foldl (bump d) (bump d vec t) ts ! i = bump d vec t ! i + real (token_count d ts i)"
    using Cons.IH [OF len Cons.prems(2)] .
  moreover have "bump d vec t ! i = vec ! i + (if bucket d t = i then 1 else 0)"
    using b Cons.prems by (auto simp: bump_def)
  ultimately show ?case by (simp add: token_count_def bucket_def)
qed

lemma foldl_bump_counts:
  "foldl (bump d) (replicate d 0) toks = map (\<lambda>i. real (token_count d toks i)) [0 ..< d]"
  by (rule nth_equalityI) (simp_all add: length_foldl_bump nth_foldl_bump)

lemma foldl_add_squares:
  "foldl (\<lambda>s v. s + v * v) a vec = (a::real) + sum_list (map (\<lambda>v. v * v) vec)"
  by (induction vec arbitrary: a) (simp_all add: algebra_simps)

lemma fallback_embedding_counts:
  assumes "0 \<le> or_else (embeddingDim s) 1024" and "or_else (embeddingDim s) 1024 < 2 ^ 32"
  shows "fallback_embedding e s text =
           Inr (let counts = map (\<lambda>i. real (token_count (nat (or_else (embeddingDim s) 1024)) (tokens text) i))
                               [0 ..< nat (or_else (embeddingDim s) 1024)];
                    n = fl e (sqrt (sum_list (map (\<lambda>c. c * c) counts)))
                in map (\<lambda>c. fl e (c / (if n = 0 then 1 else n))) counts)"
  using assms
  by (simp add: fallback_embedding_def Let_def l2norm_def foldl_bump_counts foldl_add_squares)

text \<open>The tokenizer of the source cuts the text into its maximal alphanumeric runs.\<close>

lemma is_alnum_alphanumeric: "is_alnum c = alphanumeric c"
  by (auto simp: is_alnum_def alphanumeric_def less_eq_char_def Let_def)

lemma of_char_lower: "of_char c + (32::nat) < 256 \<Longrightarrow> of_char (char_of (of_char c + (32::nat))) = of_char c + (32::nat)"
  by (simp add: of_char_of)

lemma char_classes:
  "is_alnum (lower_char c) = alphanumeric (lower_case c)"
  "alphanumeric (lower_case c) \<Longrightarrow> lower_char c = lower_case c"
  by (auto simp: is_alnum_def alphanumeric_def lower_char_def lower_case_def less_eq_char_def Let_def
        of_char_of split: if_splits)

declare runs.simps [simp del]

lemma runs_Nil: "runs P [] = []"
  by (simp add: runs.simps)

lemma runs_Cons:
  "runs P (c # cs) = (if P c then (c # takeWhile P cs) # runs P (dropWhile P cs) else runs P cs)"
  by (subst runs.simps, subst (3) runs.simps) simp

lemma split_nonalnum_runs:
  "filter (\<lambda>t. t \<noteq> []) (split_nonalnum cur s) =
     (if cur = [] then runs is_alnum s
      else (cur @ takeWhile is_alnum s) # runs is_alnum (dropWhile is_alnum s))"
proof (induction cur s rule: split_nonalnum.induct)
  case (1 cur)
  show ?case by (simp add: runs_Nil)
next
  case (2 cur c cs)
  have skip: "runs is_alnum (dropWhile (\<lambda>c. \<not> is_alnum c) cs) = runs is_alnum cs"
    by (induction cs) (simp_all add: runs_Cons)
  show ?case
  proof (cases "is_alnum c")
    case True
    with 2 show ?thesis by (simp add: runs_Cons)
  next
    case False
    with 2 show ?thesis by (simp add: runs_Cons skip)
  qed
qed

lemma runs_map_cong:
  assumes pq: "\<And>c. P (f c) = Q (g c)" and fg: "\<And>c. Q (g c) \<Longrightarrow> f c = g c"
  shows "runs P (map f s) = runs Q (map g s)"
proof (induction s rule: length_induct)
  case (1 s)
  show ?case
  proof (cases s)
    case Nil
    then show ?thesis by (simp add: runs_Nil)
  next
    case (Cons c cs)
    have comp: "(P \<circ> f) = (Q \<circ> g)" using pq by (simp add: fun_eq_iff)
    show ?thesis
    proof (cases "Q (g c)")
      case False
      have "length cs < length s" using Cons by simp
      with 1 have "runs P (map f cs) = runs Q (map g cs)" by blast
      with False Cons pq show ?thesis by (simp add: runs_Cons)
    next
      case True
      have len: "length (dropWhile (Q \<circ> g) cs) < length s"
        using Cons length_dropWhile_le [of "Q \<circ> g" cs] by simp
      with 1 have ih: "runs P (map f (dropWhile (Q \<circ> g) cs)) = runs Q (map g (dropWhile (Q \<circ> g) cs))"
        by blast
      have tk: "map f (takeWhile (Q \<circ> g) cs) = map g (takeWhile (Q \<circ> g) cs)"
      proof (rule map_cong)
        fix x assume "x \<in> set (takeWhile (Q \<circ> g) cs)"
        then have "Q (g x)" using set_takeWhileD [of x "Q \<circ> g" cs] by simp
        then show "f x = g x" by (rule fg)
      qed simp
      have pf: "P (f c)" using True pq by simp
      have l: "runs P (map f s) = (f c # map f (takeWhile (Q \<circ> g) cs)) # runs P (map f (dropWhile (Q \<circ> g) cs))"
        using pf Cons by (simp add: runs_Cons takeWhile_map dropWhile_map comp)
      have r: "runs Q (map g s) = (g c # map g (takeWhile (Q \<circ> g) cs)) # runs Q (map g (dropWhile (Q \<circ> g) cs))"
        using True Cons by (simp add: runs_Cons takeWhile_map dropWhile_map)
      show ?thesis
        unfolding l r using fg [OF True] ih tk by simp
    qed
  qed
qed

lemma tokens_spec: "tokens text = spec_tokens text"
proof -
  have "tokens text = runs is_alnum (map lower_char text)"
    by (simp add: tokens_def toLowerCase_def split_nonalnum_runs)
  also have "\<dots> = runs alphanumeric (map lower_case text)"
    by (rule runs_map_cong) (simp_all add: char_classes)
  finally show ?thesis by (simp add: spec_tokens_def)
qed

lemma fallback_embedding_spec:
  assumes "0 \<le> or_else (embeddingDim s) 1024" and "or_else (embeddingDim s) 1024 < 2 ^ 32"
  shows "fallback_embedding e s text
           = Inr (spec_fallback_vector (fl e) (nat (or_else (embeddingDim s) 1024)) text)"
  using fallback_embedding_counts [OF assms, of e "text"]
  by (simp add: spec_fallback_vector_def tokens_spec)

text \<open>
  C4. Two calls of \<open>generateEmbedding\<close> on the same text that both take the fallback path,
  under the same target dimension and on the same machine arithmetic, return the same
  result, and such a call leaves the instance as it was. For a dimension that an array can
  have, the result is the normalised bag-of-tokens count vector of the reference description:
  the tokens are the maximal runs of a-z and 0-9 in the lower-cased text, a token counts in
  the bucket given by its hash modulo the dimension, and the counts are divided by their
  Euclidean norm.
\<close>

theorem fallback_embedding_deterministic:
  assumes "fallback_path e1 (svc w1) text" and "fallback_path e2 (svc w2) text"
    and "embeddingDim (svc w1) = embeddingDim (svc w2)" and "fl e1 = fl e2"
  shows "fst (generateEmbedding e1 text w1) = fst (generateEmbedding e2 text w2) \<and>
         svc (snd (generateEmbedding e1 text w1)) = svc w1 \<and>
         (0 \<le> or_else (embeddingDim (svc w1)) 1024 \<and> or_else (embeddingDim (svc w1)) 1024 < 2 ^ 32 \<longrightarrow>
            fst (generateEmbedding e1 text w1)
              = Inr (spec_fallback_vector (fl e1) (nat (or_else (embeddingDim (svc w1)) 1024)) text)) \<and>
         tokens text = spec_tokens text"
proof -
  obtain m1 where m1: "embed_primary e1 (svc w1) text = Inl m1"
    using assms(1) by (auto simp: embed_primary_fallback)
  obtain m2 where m2: "embed_primary e2 (svc w2) text = Inl m2"
    using assms(2) by (auto simp: embed_primary_fallback)
  have g1: "generateEmbedding e1 text w1 = (fallback_embedding e1 (svc w1) text, emit (GenerateEmbedding text) w1)"
    using m1 by (simp add: generateEmbedding_def emit_def Let_def)
  have g2: "generateEmbedding e2 text w2 = (fallback_embedding e2 (svc w2) text, emit (GenerateEmbedding text) w2)"
    using m2 by (simp add: generateEmbedding_def emit_def Let_def)
  have same: "fallback_embedding e1 (svc w1) text = fallback_embedding e2 (svc w2) text"
    using assms(3,4) by (simp add: fallback_embedding_def l2norm_def Let_def)
  show ?thesis
    using g1 g2 same fallback_embedding_spec [of "svc w1" e1 "text"] tokens_spec [of "text"]
    by (simp add: emit_def)
qed

lemma sample_tokens: "tokens ''Hello World'' = [''hello'', ''world'']"
  by code_simp

lemma sample_hash: "token_hash ''hello'' = 1335831723" "token_hash ''world'' = 933488787"
  by (simp_all add: token_hash_def hash_step_def xor32_def shl32_def)

lemma sample_bucket: "bucket 4 ''hello'' = 3" "bucket 4 ''world'' = 3"
  by (simp_all add: bucket_def sample_hash)

lemma sample_bump:
  "bump 4 [a, b, c, d] ''hello'' = [a, b, c, d + 1]" "bump 4 [a, b, c, d] ''world'' = [a, b, c, d + 1]"
  by (simp_all add: bump_def sample_bucket)

lemma sample_counts: "foldl (bump 4) (replicate 4 0) (tokens ''Hello World'') = [0, 0, 0, 2]"
proof -
  have "replicate 4 (0::real) = [0, 0, 0, 0]" by (simp add: numeral_eq_Suc)
  then show ?thesis by (simp add: sample_tokens sample_bump)
qed

text \<open>Both tokens of the sample fall into bucket 3 of 4; the norm of the counts is 2.\<close>

lemma fallback_sample:
  "fst (generateEmbedding sample_env ''Hello World'' offline_world) = Inr [0, 0, 0, 1]"
  by (simp add: generateEmbedding_def embed_primary_def offline_world_def emit_def
        fallback_embedding_def or_else_def sample_counts l2norm_def sample_env_def Let_def)

theorem fallback_embedding_deterministic_witness:
  "fallback_path sample_env (svc indexed_world) ''Hello World'' \<and>
   fallback_path sample_env (svc offline_world) ''Hello World'' \<and>
   embeddingDim (svc indexed_world) = embeddingDim (svc offline_world) \<and>
   fl sample_env = fl sample_env \<and>
   fst (generateEmbedding sample_env ''Hello World'' indexed_world) = Inr [0, 0, 0, 1] \<and>
   fst (generateEmbedding sample_env ''Hello World'' offline_world) = Inr [0, 0, 0, 1] \<and>
   spec_fallback_vector (fl sample_env) 4 ''Hello World'' = [0, 0, 0, 1] \<and>
   spec_tokens ''Hello World'' = [''hello'', ''world'']"
proof -
  have a: "fallback_path sample_env (svc indexed_world) ''Hello World''"
    by (simp add: fallback_path_def sample_env_def indexed_world_def)
  have b: "fallback_path sample_env (svc offline_world) ''Hello World''"
    by (simp add: fallback_path_def offline_world_def)
  have c: "embeddingDim (svc indexed_world) = embeddingDim (svc offline_world)"
    by (simp add: indexed_world_def offline_world_def)
  have d: "or_else (embeddingDim (svc indexed_world)) 1024 = 4"
    by (simp add: indexed_world_def or_else_def)
  have r: "(0::int) \<le> 4 \<and> (4::int) < 2 ^ 32" by simp
  note t = fallback_embedding_deterministic [OF a b c refl, unfolded d nat_numeral]
  have t1: "fst (generateEmbedding sample_env ''Hello World'' indexed_world)
          = fst (generateEmbedding sample_env ''Hello World'' offline_world)"
    by (rule conjunct1 [OF t])
  have t3: "fst (generateEmbedding sample_env ''Hello World'' indexed_world)
          = Inr (spec_fallback_vector (fl sample_env) 4 ''Hello World'')"
    by (rule mp [OF conjunct1 [OF conjunct2 [OF conjunct2 [OF t]]] r])
  have t4: "tokens ''Hello World'' = spec_tokens ''Hello World''"
    by (rule conjunct2 [OF conjunct2 [OF conjunct2 [OF t]]])
  have v1: "fst (generateEmbedding sample_env ''Hello World'' indexed_world) = Inr [0, 0, 0, 1]"
    using t1 fallback_sample by simp
  have v3: "spec_fallback_vector (fl sample_env) 4 ''Hello World'' = [0, 0, 0, 1]"
    using t3 v1 by simp
  have v4: "spec_tokens ''Hello World'' = [''hello'', ''world'']"
    using t4 sample_tokens by simp
  show ?thesis
    by (intro conjI) (rule a b c refl v1 fallback_sample v3 v4)+
qed

section \<open>Length harmonisation\<close>

lemma harmonize_length: "0 < d \<Longrightarrow> length (harmonize d vec) = nat d"
  by (auto simp: harmonize_def slice0_def)

text \<open>
  C6. With a credential, a target dimension \<open>D > 0\<close> on the instance and a provider vector
  of length \<open>L\<close>, \<open>generateEmbedding\<close> returns a vector of length \<open>D\<close>: the first \<open>D\<close>
  components when \<open>L > D\<close>, the vector followed by \<open>D - L\<close> zeros when \<open>L < D\<close>, the vector
  itself when \<open>L = D\<close>.
\<close>

theorem generateEmbedding_harmonizes:
  assumes "jinaApiKey (svc w) \<noteq> []" and "jina e t = ApiEmbedding vec"
    and "embeddingDim (svc w) = Some D" and "0 < D"
  shows "\<exists>v. fst (generateEmbedding e t w) = Inr v \<and> length v = nat D \<and>
             v = (if D < int (length vec) then take (nat D) vec
                  else if int (length vec) < D then vec @ replicate (nat D - length vec) 0
                  else vec)"
  using assms
  by (auto simp: generateEmbedding_def embed_primary_def truthy_def or_else_def emit_def Let_def
        harmonize_def slice0_def)

theorem generateEmbedding_harmonizes_witness:
  "jinaApiKey (svc indexed_world) \<noteq> [] \<and>
   jina (embedding_env [1, 2, 3, 4, 5, 6]) ''q'' = ApiEmbedding [1, 2, 3, 4, 5, 6] \<and>
   embeddingDim (svc indexed_world) = Some 4 \<and> (0::int) < 4 \<and>
   fst (generateEmbedding (embedding_env [1, 2, 3, 4, 5, 6]) ''q'' indexed_world) = Inr [1, 2, 3, 4]"
  using generateEmbedding_harmonizes
          [of indexed_world "embedding_env [1, 2, 3, 4, 5, 6]" "''q''" "[1, 2, 3, 4, 5, 6]" 4]
  by (simp add: indexed_world_def embedding_env_def)

lemma harmonize_pads:
  "fst (generateEmbedding (embedding_env [1, 2]) ''q'' indexed_world) = Inr [1, 2, 0, 0]"
  by (simp add: generateEmbedding_def embed_primary_def truthy_def or_else_def emit_def Let_def
        harmonize_def slice0_def indexed_world_def embedding_env_def sample_env_def numeral_eq_Suc)

section \<open>Effects of the pipeline stages\<close>

lemma retrieve_memory:
  "useMemoryStorage (svc w) \<Longrightarrow>
   retrieve e q w = (Inr (''No specific news articles available in memory storage.'', []), w)"
  by (simp add: retrieve_def)

lemma generateEmbedding_effect:
  "generateEmbedding e q w = (r, w1) \<Longrightarrow>
   redis w1 = redis w \<and> trace w1 = trace w @ [GenerateEmbedding q] \<and>
   useMemoryStorage (svc w1) = useMemoryStorage (svc w)"
  by (auto simp: generateEmbedding_def embed_primary_def emit_def Let_def
      split: sum.splits api_reply.splits if_splits)

lemma searchSimilar_effect:
  "searchSimilar e v k w = (r, w1) \<Longrightarrow>
   redis w1 = redis w \<and> trace w1 = trace w @ [SearchSimilar k] \<and> svc w1 = svc w"
  by (auto simp: searchSimilar_def emit_def Let_def split: if_splits)

lemma retrieve_effect:
  assumes "retrieve e q w = (r, w1)"
  shows "redis w1 = redis w \<and> useMemoryStorage (svc w1) = useMemoryStorage (svc w) \<and>
         (\<exists>evs. trace w1 = trace w @ evs \<and> list_all is_retrieval evs)"
proof (cases "useMemoryStorage (svc w)")
  case True
  with assms show ?thesis by (simp add: retrieve_def)
next
  case False
  obtain r1 w2 where g: "generateEmbedding e q w = (r1, w2)" by (cases "generateEmbedding e q w")
  note ge = generateEmbedding_effect [OF g]
  show ?thesis
  proof (cases r1)
    case (Inl err)
    with assms False g have "w1 = w2" by (simp add: retrieve_def)
    with ge show ?thesis by (simp add: is_retrieval_def)
  next
    case (Inr v)
    obtain r2 w3 where s: "searchSimilar e v 5 w2 = (r2, w3)" by (cases "searchSimilar e v 5 w2")
    note se = searchSimilar_effect [OF s]
    from assms False g Inr s have "w1 = w3" by (auto simp: retrieve_def split: sum.splits)
    with ge se show ?thesis by (simp add: is_retrieval_def)
  qed
qed

lemma generate_answer_effect:
  "generate_answer e q c ds w = (r, w1) \<Longrightarrow>
   redis w1 = redis w \<and> svc w1 = svc w \<and>
   trace w1 = trace w @ [GenerateContent (choose_prompt (svc w) q c)]"
  by (auto simp: generate_answer_def emit_def Let_def split: sum.splits if_splits)

lemma consume_stream_eq:
  "consume_stream cs full w = (full @ concat cs, w\<lparr>trace := trace w @ map OnChunk cs\<rparr>)"
  by (induction cs arbitrary: full w) (simp_all add: emit_def)

lemma consume_stream_effect:
  "consume_stream cs full w = (full', w1) \<Longrightarrow>
   full' = full @ concat cs \<and> redis w1 = redis w \<and> svc w1 = svc w \<and>
   trace w1 = trace w @ map OnChunk cs"
  by (auto simp: consume_stream_eq)

lemma stream_answer_effect:
  assumes "stream_answer e q c ds w = (r, w1)"
  shows "redis w1 = redis w \<and> svc w1 = svc w \<and>
         (\<exists>frags. trace w1 = trace w @ GenerateContentStream (choose_prompt (svc w) q c) # map OnChunk frags)"
proof -
  obtain chunks failure where gs: "generateContentStream e (choose_prompt (svc w) q c) = (chunks, failure)"
    by (cases "generateContentStream e (choose_prompt (svc w) q c)")
  obtain full w2 where cs: "consume_stream chunks [] (emit (GenerateContentStream (choose_prompt (svc w) q c)) w) = (full, w2)"
    by (cases "consume_stream chunks [] (emit (GenerateContentStream (choose_prompt (svc w) q c)) w)")
  note ce = consume_stream_effect [OF cs]
  have tr: "trace w2 = trace w @ GenerateContentStream (choose_prompt (svc w) q c) # map OnChunk chunks"
    using ce by (simp add: emit_def)
  have rs: "redis w2 = redis w \<and> svc w2 = svc w" using ce by (simp add: emit_def)
  show ?thesis
  proof (cases failure)
    case None
    with assms gs cs have "w1 = w2" by (simp add: stream_answer_def Let_def)
    with tr rs show ?thesis by blast
  next
    case (Some err)
    show ?thesis
    proof (cases "degradable err")
      case True
      with assms gs cs Some have "w1 = emit (OnChunk (createFallbackResponse e q ds)) w2"
        by (simp add: stream_answer_def Let_def)
      then have "trace w1 = trace w @ GenerateContentStream (choose_prompt (svc w) q c)
                   # map OnChunk (chunks @ [createFallbackResponse e q ds])"
        and "redis w1 = redis w \<and> svc w1 = svc w"
        using tr rs by (simp_all add: emit_def)
      then show ?thesis by blast
    next
      case False
      with assms gs cs Some have "w1 = w2" by (simp add: stream_answer_def Let_def)
      with tr rs show ?thesis by blast
    qed
  qed
qed

lemma lPush_ok:
  "lPush e key m w = (Inr u, w1) \<Longrightarrow>
   redis_error e = None \<and> redis w1 = (redis w)(key := m # redis w key) \<and>
   trace w1 = trace w @ [LPush key m] \<and> svc w1 = svc w"
  by (auto simp: lPush_def emit_def split: option.splits)

lemma lPush_failed: "lPush e key m w = (Inl err, w1) \<Longrightarrow> w1 = w"
  by (auto simp: lPush_def split: option.splits)

lemma processQuery_Inr:
  "processQuery e q sid w = (Inr a, w') \<Longrightarrow>
   \<exists>ctx docs w1 w2.
     retrieve e q w = (Inr (ctx, docs), w1) \<and>
     generate_answer e q ctx docs w1 = (Inr (response a), w2) \<and>
     lPush e (''chat:'' @ sid) (assistant_message e (response a) docs) w2 = (Inr (), w') \<and>
     sources a = map source_of docs"
  by (auto simp: processQuery_def split: prod.splits sum.splits)

lemma processQueryWithStreaming_Inr:
  "processQueryWithStreaming e q sid w = (Inr u, w') \<Longrightarrow>
   \<exists>ctx docs w1 w2 w3 full.
     retrieve e q w = (Inr (ctx, docs), w1) \<and>
     stream_answer e q ctx docs w1 = (Inr full, w2) \<and>
     lPush e (''chat:'' @ sid) (assistant_message e full docs) w2 = (Inr (), w3) \<and>
     w' = emit (OnComplete \<lparr>response = full, sources = map source_of docs\<rparr>) w3"
  by (auto simp: processQueryWithStreaming_def split: prod.splits sum.splits)

lemma retrieval_not_write:
  "list_all is_retrieval evs \<Longrightarrow>
   list_all (\<lambda>ev. \<not> is_transcript_write ev \<and> \<not> is_completion ev) evs"
  by (induction evs)
     (auto simp: is_retrieval_def is_transcript_write_def is_completion_def split: event.splits)

lemma chunks_not_write:
  "list_all (\<lambda>ev. \<not> is_transcript_write ev \<and> \<not> is_completion ev) (map OnChunk frags)"
  by (induction frags) (simp_all add: is_transcript_write_def is_completion_def)

text \<open>
  C9. A call of \<open>processQuery\<close> that returns an answer, and a call of
  \<open>processQueryWithStreaming\<close> that returns, has changed the key-value store in one place
  only: one assistant message, carrying the answer text, the clock's time stamp and the source
  list, was pushed onto the session's transcript. The push is the last logged call of
  \<open>processQuery\<close> and, when streaming, is followed by \<open>onComplete\<close> alone; nothing
  before it writes to a transcript or completes.
\<close>

theorem completion_appends_one_message:
  "(processQuery e q sid w = (Inr a, w') \<longrightarrow>
      redis w' = (redis w)(''chat:'' @ sid :=
          \<lparr>msg_type = Assistant, content = response a, timestamp = now e, msg_sources = sources a\<rparr>
            # redis w (''chat:'' @ sid)) \<and>
      (\<exists>pre. trace w' = trace w @ pre @
                 [LPush (''chat:'' @ sid)
                    \<lparr>msg_type = Assistant, content = response a, timestamp = now e, msg_sources = sources a\<rparr>] \<and>
             list_all (\<lambda>ev. \<not> is_transcript_write ev \<and> \<not> is_completion ev) pre)) \<and>
   (processQueryWithStreaming e q sid w = (Inr u, w'') \<longrightarrow>
      (\<exists>b pre.
          redis w'' = (redis w)(''chat:'' @ sid :=
            \<lparr>msg_type = Assistant, content = response b, timestamp = now e, msg_sources = sources b\<rparr>
              # redis w (''chat:'' @ sid)) \<and>
          trace w'' = trace w @ pre @
                 [LPush (''chat:'' @ sid)
                    \<lparr>msg_type = Assistant, content = response b, timestamp = now e, msg_sources = sources b\<rparr>,
                  OnComplete b] \<and>
          list_all (\<lambda>ev. \<not> is_transcript_write ev \<and> \<not> is_completion ev) pre))"
proof (intro conjI impI)
  assume pq: "processQuery e q sid w = (Inr a, w')"
  from processQuery_Inr [OF pq] obtain ctx docs w1 w2 where
    r: "retrieve e q w = (Inr (ctx, docs), w1)" and
    g: "generate_answer e q ctx docs w1 = (Inr (response a), w2)" and
    p: "lPush e (''chat:'' @ sid) (assistant_message e (response a) docs) w2 = (Inr (), w')" and
    s: "sources a = map source_of docs"
    by blast
  have m: "assistant_message e (response a) docs =
           \<lparr>msg_type = Assistant, content = response a, timestamp = now e, msg_sources = sources a\<rparr>"
    by (simp add: assistant_message_def s)
  from retrieve_effect [OF r] obtain evs where
    r1: "redis w1 = redis w" and t1: "trace w1 = trace w @ evs" and q1: "list_all is_retrieval evs"
    by blast
  from generate_answer_effect [OF g] have
    r2: "redis w2 = redis w1" and t2: "trace w2 = trace w1 @ [GenerateContent (choose_prompt (svc w1) q ctx)]"
    by simp_all
  from lPush_ok [OF p] have
    r3: "redis w' = (redis w2)(''chat:'' @ sid := assistant_message e (response a) docs # redis w2 (''chat:'' @ sid))"
    and t3: "trace w' = trace w2 @ [LPush (''chat:'' @ sid) (assistant_message e (response a) docs)]"
    by simp_all
  show "redis w' = (redis w)(''chat:'' @ sid :=
          \<lparr>msg_type = Assistant, content = response a, timestamp = now e, msg_sources = sources a\<rparr>
            # redis w (''chat:'' @ sid))"
    using r1 r2 r3 m by simp
  have "trace w' = trace w @ (evs @ [GenerateContent (choose_prompt (svc w1) q ctx)]) @
          [LPush (''chat:'' @ sid)
             \<lparr>msg_type = Assistant, content = response a, timestamp = now e, msg_sources = sources a\<rparr>]"
    using t1 t2 t3 m by simp
  moreover have "list_all (\<lambda>ev. \<not> is_transcript_write ev \<and> \<not> is_completion ev)
                   (evs @ [GenerateContent (choose_prompt (svc w1) q ctx)])"
    using retrieval_not_write [OF q1] by (simp add: is_transcript_write_def is_completion_def)
  ultimately show "\<exists>pre. trace w' = trace w @ pre @
                 [LPush (''chat:'' @ sid)
                    \<lparr>msg_type = Assistant, content = response a, timestamp = now e, msg_sources = sources a\<rparr>] \<and>
             list_all (\<lambda>ev. \<not> is_transcript_write ev \<and> \<not> is_completion ev) pre"
    by blast
next
  assume ps: "processQueryWithStreaming e q sid w = (Inr u, w'')"
  from processQueryWithStreaming_Inr [OF ps] obtain ctx docs w1 w2 w3 full where
    r: "retrieve e q w = (Inr (ctx, docs), w1)" and
    g: "stream_answer e q ctx docs w1 = (Inr full, w2)" and
    p: "lPush e (''chat:'' @ sid) (assistant_message e full docs) w2 = (Inr (), w3)" and
    c: "w'' = emit (OnComplete \<lparr>response = full, sources = map source_of docs\<rparr>) w3"
    by blast
  define b where "b = \<lparr>response = full, sources = map source_of docs\<rparr>"
  have m: "assistant_message e full docs =
           \<lparr>msg_type = Assistant, content = response b, timestamp = now e, msg_sources = sources b\<rparr>"
    by (simp add: assistant_message_def b_def)
  from retrieve_effect [OF r] obtain evs where
    r1: "redis w1 = redis w" and t1: "trace w1 = trace w @ evs" and q1: "list_all is_retrieval evs"
    by blast
  from stream_answer_effect [OF g] obtain frags where
    r2: "redis w2 = redis w1" and
    t2: "trace w2 = trace w1 @ GenerateContentStream (choose_prompt (svc w1) q ctx) # map OnChunk frags"
    by blast
  from lPush_ok [OF p] have
    r3: "redis w3 = (redis w2)(''chat:'' @ sid := assistant_message e full docs # redis w2 (''chat:'' @ sid))"
    and t3: "trace w3 = trace w2 @ [LPush (''chat:'' @ sid) (assistant_message e full docs)]"
    by simp_all
  let ?pre = "evs @ GenerateContentStream (choose_prompt (svc w1) q ctx) # map OnChunk frags"
  have A: "redis w'' = (redis w)(''chat:'' @ sid :=
            \<lparr>msg_type = Assistant, content = response b, timestamp = now e, msg_sources = sources b\<rparr>
              # redis w (''chat:'' @ sid))"
    using r1 r2 r3 m c by (simp add: emit_def)
  have B: "trace w'' = trace w @ ?pre @
                 [LPush (''chat:'' @ sid)
                    \<lparr>msg_type = Assistant, content = response b, timestamp = now e, msg_sources = sources b\<rparr>,
                  OnComplete b]"
    using t1 t2 t3 m c by (simp add: emit_def b_def)
  have C: "list_all (\<lambda>ev. \<not> is_transcript_write ev \<and> \<not> is_completion ev) ?pre"
    using retrieval_not_write [OF q1] chunks_not_write [of frags]
    by (simp add: is_transcript_write_def is_completion_def)
  from A B C show "\<exists>b pre.
          redis w'' = (redis w)(''chat:'' @ sid :=
            \<lparr>msg_type = Assistant, content = response b, timestamp = now e, msg_sources = sources b\<rparr>
              # redis w (''chat:'' @ sid)) \<and>
          trace w'' = trace w @ pre @
                 [LPush (''chat:'' @ sid)
                    \<lparr>msg_type = Assistant, content = response b, timestamp = now e, msg_sources = sources b\<rparr>,
                  OnComplete b] \<and>
          list_all (\<lambda>ev. \<not> is_transcript_write ev \<and> \<not> is_completion ev) pre"
    by blast
qed

section \<open>Memory-storage mode\<close>

lemma processQuery_memory_trace:
  assumes "useMemoryStorage (svc w)"
  shows "\<exists>evs. trace (snd (processQuery e q sid w)) = trace w @ GenerateContent (createGeneralPrompt q) # evs \<and>
               list_all (\<lambda>ev. \<not> is_retrieval ev) evs"
  using assms
  by (auto simp: processQuery_def retrieve_def generate_answer_def choose_prompt_def lPush_def
        emit_def Let_def is_retrieval_def split: sum.splits option.splits)

lemma processQuery_memory_sources:
  assumes "useMemoryStorage (svc w)" and "fst (processQuery e q sid w) = Inr a"
  shows "sources a = []"
  using assms
  by (auto simp: processQuery_def retrieve_def split: sum.splits prod.splits)

lemma processQuery_memory_store:
  assumes "useMemoryStorage (svc w)"
  shows "fst (processQuery e q sid (w\<lparr>svc := (svc w)\<lparr>memoryStore := ms\<rparr>\<rparr>)) = fst (processQuery e q sid w)"
  using assms
  by (auto simp: processQuery_def retrieve_def generate_answer_def choose_prompt_def lPush_def
        emit_def Let_def split: sum.splits option.splits)

lemma streaming_memory_trace:
  assumes mem: "useMemoryStorage (svc w)"
  shows "\<exists>evs. trace (snd (processQueryWithStreaming e q sid w))
                 = trace w @ GenerateContentStream (createGeneralPrompt q) # evs \<and>
               list_all (\<lambda>ev. \<not> is_retrieval ev \<and> delivered_sources ev = []) evs"
proof -
  let ?ctx = "''No specific news articles available in memory storage.''"
  obtain r w2 where g: "stream_answer e q ?ctx [] w = (r, w2)" by (cases "stream_answer e q ?ctx [] w")
  from stream_answer_effect [OF g] obtain frags where
    s2: "svc w2 = svc w" and
    t2: "trace w2 = trace w @ GenerateContentStream (choose_prompt (svc w) q ?ctx) # map OnChunk frags"
    by blast
  have p: "choose_prompt (svc w) q ?ctx = createGeneralPrompt q" using mem by (simp add: choose_prompt_def)
  have quiet: "list_all (\<lambda>ev. \<not> is_retrieval ev \<and> delivered_sources ev = []) (map OnChunk frags)"
    by (induction frags) (simp_all add: is_retrieval_def delivered_sources_def)
  show ?thesis
  proof (cases r)
    case (Inl err)
    then have "snd (processQueryWithStreaming e q sid w) = w2"
      using mem g by (simp add: processQueryWithStreaming_def retrieve_def)
    with t2 p quiet show ?thesis by simp
  next
    case (Inr full)
    show ?thesis
    proof (cases "redis_error e")
      case None
      then have "trace (snd (processQueryWithStreaming e q sid w)) =
                 trace w2 @ [LPush (''chat:'' @ sid) (assistant_message e full []),
                             OnComplete \<lparr>response = full, sources = []\<rparr>]"
        using mem g Inr by (simp add: processQueryWithStreaming_def retrieve_def lPush_def emit_def)
      with t2 p quiet show ?thesis by (simp add: is_retrieval_def delivered_sources_def)
    next
      case (Some err)
      then have "snd (processQueryWithStreaming e q sid w) = w2"
        using mem g Inr by (simp add: processQueryWithStreaming_def retrieve_def lPush_def)
      with t2 p quiet show ?thesis by simp
    qed
  qed
qed

text \<open>
  C5. In memory-storage mode neither entry point calls \<open>generateEmbedding\<close> or
  \<open>searchSimilar\<close>: the first call made is the generation with the context-free prompt and
  no later call is a retrieval. Every delivered source list is empty, and the answer does not
  depend on what the in-memory store holds.
\<close>

theorem memory_mode_skips_retrieval:
  assumes "useMemoryStorage (svc w)"
  shows "(\<exists>evs. trace (snd (processQuery e q sid w)) = trace w @ GenerateContent (createGeneralPrompt q) # evs \<and>
               list_all (\<lambda>ev. \<not> is_retrieval ev) evs) \<and>
         (\<forall>a. fst (processQuery e q sid w) = Inr a \<longrightarrow> sources a = []) \<and>
         (\<exists>evs. trace (snd (processQueryWithStreaming e q sid w))
                 = trace w @ GenerateContentStream (createGeneralPrompt q) # evs \<and>
               list_all (\<lambda>ev. \<not> is_retrieval ev \<and> delivered_sources ev = []) evs) \<and>
         fst (processQuery e q sid (w\<lparr>svc := (svc w)\<lparr>memoryStore := ms\<rparr>\<rparr>)) = fst (processQuery e q sid w)"
  using processQuery_memory_trace [OF assms] processQuery_memory_sources [OF assms]
    streaming_memory_trace [OF assms] processQuery_memory_store [OF assms]
  by blast

lemma sample_processQuery:
  "fst (processQuery sample_env ''hi'' ''s1'' memory_world) = Inr \<lparr>response = ''Fine.'', sources = []\<rparr>"
  by (simp add: processQuery_def retrieve_def generate_answer_def lPush_def emit_def Let_def
        sample_env_def memory_world_def)

lemma sample_streaming:
  "fst (processQueryWithStreaming sample_env ''hi'' ''s1'' memory_world) = Inr ()"
  by (simp add: processQueryWithStreaming_def retrieve_def stream_answer_def lPush_def emit_def Let_def
        sample_env_def memory_world_def)

theorem memory_mode_skips_retrieval_witness:
  "useMemoryStorage (svc memory_world) \<and> memoryStore (svc memory_world) \<noteq> [] \<and>
   fst (processQuery sample_env ''hi'' ''s1'' memory_world) = Inr \<lparr>response = ''Fine.'', sources = []\<rparr> \<and>
   sources \<lparr>response = ''Fine.'', sources = []\<rparr> = [] \<and>
   (\<exists>evs. trace (snd (processQuery sample_env ''hi'' ''s1'' memory_world))
            = trace memory_world @ GenerateContent (createGeneralPrompt ''hi'') # evs \<and>
          list_all (\<lambda>ev. \<not> is_retrieval ev) evs)"
proof -
  have h: "useMemoryStorage (svc memory_world)" by (simp add: memory_world_def)
  have n: "memoryStore (svc memory_world) \<noteq> []" by (simp add: memory_world_def sample_store_def)
  note t = memory_mode_skips_retrieval [OF h, of sample_env "''hi''" "''s1''" "[]"]
  have t1: "\<exists>evs. trace (snd (processQuery sample_env ''hi'' ''s1'' memory_world))
            = trace memory_world @ GenerateContent (createGeneralPrompt ''hi'') # evs \<and>
          list_all (\<lambda>ev. \<not> is_retrieval ev) evs"
    by (rule conjunct1 [OF t])
  show ?thesis using h n sample_processQuery t1 by simp
qed

theorem completion_appends_one_message_witness:
  "processQuery sample_env ''hi'' ''s1'' memory_world
     = (Inr \<lparr>response = ''Fine.'', sources = []\<rparr>, snd (processQuery sample_env ''hi'' ''s1'' memory_world)) \<and>
   processQueryWithStreaming sample_env ''hi'' ''s1'' memory_world
     = (Inr (), snd (processQueryWithStreaming sample_env ''hi'' ''s1'' memory_world)) \<and>
   redis (snd (processQuery sample_env ''hi'' ''s1'' memory_world)) ''chat:s1''
     = [\<lparr>msg_type = Assistant, content = ''Fine.'', timestamp = now sample_env, msg_sources = []\<rparr>] \<and>
   length (redis (snd (processQueryWithStreaming sample_env ''hi'' ''s1'' memory_world)) ''chat:s1'') = 1"
proof -
  let ?w1 = "snd (processQuery sample_env ''hi'' ''s1'' memory_world)"
  let ?w2 = "snd (processQueryWithStreaming sample_env ''hi'' ''s1'' memory_world)"
  have a: "processQuery sample_env ''hi'' ''s1'' memory_world = (Inr \<lparr>response = ''Fine.'', sources = []\<rparr>, ?w1)"
    using sample_processQuery by (metis prod.collapse)
  have b: "processQueryWithStreaming sample_env ''hi'' ''s1'' memory_world = (Inr (), ?w2)"
    using sample_streaming by (metis prod.collapse)
  have e: "redis memory_world = (\<lambda>k. [])" by (simp add: memory_world_def)
  note t = completion_appends_one_message
             [of sample_env "''hi''" "''s1''" memory_world "\<lparr>response = ''Fine.'', sources = []\<rparr>" ?w1 "()" ?w2]
  from mp [OF conjunct1 [OF t] a] have r1: "redis ?w1 ''chat:s1''
     = [\<lparr>msg_type = Assistant, content = ''Fine.'', timestamp = now sample_env, msg_sources = []\<rparr>]"
    by (simp add: e)
  from mp [OF conjunct2 [OF t] b] have r2: "length (redis ?w2 ''chat:s1'') = 1"
    by (auto simp: e)
  show ?thesis using a b r1 r2 by blast
qed

section \<open>Generator failures\<close>

text \<open>The \<open>forEach\<close> loop appends the entries of the listed matches in order.\<close>

lemma for_each_doc_concat:
  "for_each_doc e i ds acc = acc @ concat (map (\<lambda>j. fallback_entry e (i + j) (ds ! j)) [0 ..< length ds])"
proof (induction ds arbitrary: i acc)
  case Nil
  show ?case by simp
next
  case (Cons d ds)
  show ?case
    by (simp add: Cons.IH map_upt_Suc del: upt_Suc)
qed

lemma take_entries:
  "map (\<lambda>j. fallback_entry e j (take 3 docs ! j)) [0 ..< min (length docs) 3]
     = map (\<lambda>j. fallback_entry e j (docs ! j)) [0 ..< min (length docs) 3]"
  by (rule map_cong) simp_all

lemma createFallbackResponse_layout:
  "createFallbackResponse e q docs =
     fallback_header @
     (if docs = [] then fallback_no_matches
      else fallback_intro @
           concat (map (\<lambda>j. fallback_entry e j (docs ! j)) [0 ..< min (length docs) 3]) @
           fallback_footer (length docs))"
  by (simp add: createFallbackResponse_def Let_def slice0_def for_each_doc_concat take_entries)

text \<open>\<open>includes\<close> finds a contiguous occurrence.\<close>

lemma str_includes_sublist: "str_includes s needle = sublist needle s"
  by (induction s) (simp_all add: sublist_Cons_right)

lemma degradable_needles:
  "degradable err =
     (\<exists>needle \<in> set [''429'', ''quota'', ''API_KEY_INVALID'', ''expired'', ''overloaded'', ''503''].
        sublist needle (message err))"
  by (simp add: degradable_def str_includes_sublist)

lemma fallback_entry_lines:
  "fallback_entry e j d =
     show_nat (j + 1) @ ''. **'' @
       (if title (doc_metadata d) = [] then ''News Article'' else title (doc_metadata d)) @ ''**\<newline>'' @
     (if summary (doc_metadata d) = [] then []
      else ''   '' @ take 200 (summary (doc_metadata d)) @
           (if 200 < length (summary (doc_metadata d)) then ''...'' else []) @ ''\<newline>'') @
     (if source (doc_metadata d) = [] then [] else ''   Source: '' @ source (doc_metadata d) @ ''\<newline>'') @
     (if url (doc_metadata d) = [] then [] else ''   Read more: '' @ url (doc_metadata d) @ ''\<newline>'') @
     ''   Relevance: '' @ show_int \<lfloor>fl e (score d * 100) + 1 / 2\<rfloor> @ ''%\<newline>\<newline>''"
  by (simp add: fallback_entry_def title_or_default_def substring0_def math_round_def Let_def
      del: show_nat.simps)

lemma degradable_429: "degradable (Error ''[429 Too Many Requests] quota exceeded'')"
  by (simp add: degradable_def message_def)

text \<open>
  C1, amended by the proviso that the append to the transcript succeeds. Once retrieval has
  delivered its matches and the generator throws: an error whose message contains 429, quota,
  API_KEY_INVALID, expired, overloaded or 503 is degradable and makes \<open>processQuery\<close>
  return the templated answer built from the matches, provided the assistant message can be
  appended to the transcript, and otherwise the error of the append; any other error is
  thrown on to the caller. The templated answer is the apology, then either the
  no-matching-articles text or the entries of the first three matches followed by the
  closing line. An entry is the numbered title line, the summary cut to 200 characters, the
  source and the link, each of these three only for a non-empty field, and the relevance,
  the rounded hundredfold of the score, in percent.
\<close>

theorem processQuery_generator_failure:
  assumes r: "retrieve e q w = (Inr (ctx, docs), w1)"
    and g: "generateContent e (choose_prompt (svc w1) q ctx) = Inl err"
  shows "(degradable err \<and> redis_error e = None \<longrightarrow>
            fst (processQuery e q sid w)
              = Inr \<lparr>response = createFallbackResponse e q docs, sources = map source_of docs\<rparr>) \<and>
         (degradable err \<longrightarrow> (\<forall>re. redis_error e = Some re \<longrightarrow> fst (processQuery e q sid w) = Inl re)) \<and>
         (\<not> degradable err \<longrightarrow> fst (processQuery e q sid w) = Inl err) \<and>
         degradable err =
           (\<exists>needle \<in> set [''429'', ''quota'', ''API_KEY_INVALID'', ''expired'', ''overloaded'', ''503''].
              sublist needle (message err)) \<and>
         createFallbackResponse e q docs =
           fallback_header @
           (if docs = [] then fallback_no_matches
            else fallback_intro @
                 concat (map (\<lambda>j. fallback_entry e j (docs ! j)) [0 ..< min (length docs) 3]) @
                 fallback_footer (length docs)) \<and>
         (\<forall>j d. fallback_entry e j d =
            show_nat (j + 1) @ ''. **'' @
              (if title (doc_metadata d) = [] then ''News Article'' else title (doc_metadata d)) @ ''**\<newline>'' @
            (if summary (doc_metadata d) = [] then []
             else ''   '' @ take 200 (summary (doc_metadata d)) @
                  (if 200 < length (summary (doc_metadata d)) then ''...'' else []) @ ''\<newline>'') @
            (if source (doc_metadata d) = [] then [] else ''   Source: '' @ source (doc_metadata d) @ ''\<newline>'') @
            (if url (doc_metadata d) = [] then [] else ''   Read more: '' @ url (doc_metadata d) @ ''\<newline>'') @
            ''   Relevance: '' @ show_int \<lfloor>fl e (score d * 100) + 1 / 2\<rfloor> @ ''%\<newline>\<newline>'')"
proof -
  have a: "degradable err \<and> redis_error e = None \<longrightarrow>
            fst (processQuery e q sid w)
              = Inr \<lparr>response = createFallbackResponse e q docs, sources = map source_of docs\<rparr>"
    using r g by (simp add: processQuery_def generate_answer_def lPush_def emit_def Let_def)
  have b: "degradable err \<longrightarrow> (\<forall>re. redis_error e = Some re \<longrightarrow> fst (processQuery e q sid w) = Inl re)"
    using r g by (simp add: processQuery_def generate_answer_def lPush_def emit_def Let_def)
  have c: "\<not> degradable err \<longrightarrow> fst (processQuery e q sid w) = Inl err"
    using r g by (simp add: processQuery_def generate_answer_def lPush_def emit_def Let_def)
  show ?thesis
    using a b c degradable_needles [of err] createFallbackResponse_layout [of e q docs]
      fallback_entry_lines [of e]
    by blast
qed

lemma sample_retrieve:
  "fst (retrieve failing_indexed_env ''rates'' indexed_world)
     = Inr (''Rates rose by 25 basis points.\<newline>\<newline>A new accelerator chip.'', sample_docs)"
  by (simp add: retrieve_def generateEmbedding_def embed_primary_def truthy_def or_else_def
        harmonize_def searchSimilar_def emit_def Let_def failing_indexed_env_def embedding_env_def
        sample_env_def indexed_world_def sample_docs_def)

lemma show_samples:
  "show_nat (Suc 0) = ''1''" "show_nat (Suc (Suc 0)) = ''2''" "show_nat 2 = ''2''"
  "show_int 88 = ''88''" "show_int 50 = ''50''"
  by code_simp+

lemma round_samples:
  "math_round (0.875 * 100) = 88" "math_round (175 / 2) = 88" "math_round (0.5 * 100) = 50"
  "math_round 50 = 50"
  by (simp_all add: math_round_def)

lemma fl_failing_indexed_env: "fl failing_indexed_env x = x"
  by (simp add: failing_indexed_env_def embedding_env_def sample_env_def)

text \<open>The whole templated answer for two matches, the second without title, summary, source and link.\<close>

lemma sample_fallback_text:
  "createFallbackResponse failing_indexed_env ''rates'' sample_docs =
     ''I apologize, but I'm currently experiencing API limitations. However, I can provide you with some relevant information based on the news articles I have:\<newline>\<newline>'' @
     ''Here are some relevant news articles I found:\<newline>\<newline>'' @
     ''1. **Central Bank raises rates**\<newline>'' @
     ''   Rates rose.\<newline>'' @
     ''   Source: Wire\<newline>'' @
     ''   Read more: https://news.example/a\<newline>'' @
     ''   Relevance: 88%\<newline>\<newline>'' @
     ''2. **News Article**\<newline>'' @
     ''   Relevance: 50%\<newline>\<newline>'' @
     ''Based on these 2 relevant articles, I can help answer questions about recent technology developments, news trends, and current events. Please try asking more specific questions about the topics mentioned above.''"
  by (simp add: createFallbackResponse_def slice0_def sample_docs_def sample_meta_def fallback_entry_def
        title_or_default_def substring0_def show_samples round_samples fl_failing_indexed_env Let_def
        fallback_header_def fallback_intro_def fallback_footer_def
      del: show_nat.simps)

lemma sample_sources:
  "map source_of sample_docs =
     [\<lparr>ref_title = ''Central Bank raises rates'', ref_url = ''https://news.example/a'', ref_score = 0.875\<rparr>,
      \<lparr>ref_title = ''News Article'', ref_url = [], ref_score = 0.5\<rparr>]"
  by (simp add: source_of_def sample_docs_def sample_meta_def title_or_default_def)

theorem processQuery_generator_failure_witness:
  "retrieve failing_indexed_env ''rates'' indexed_world
     = (Inr (''Rates rose by 25 basis points.\<newline>\<newline>A new accelerator chip.'', sample_docs),
        snd (retrieve failing_indexed_env ''rates'' indexed_world)) \<and>
   generateContent failing_indexed_env
       (choose_prompt (svc (snd (retrieve failing_indexed_env ''rates'' indexed_world))) ''rates''
          ''Rates rose by 25 basis points.\<newline>\<newline>A new accelerator chip.'')
     = Inl (Error ''[429 Too Many Requests] quota exceeded'') \<and>
   degradable (Error ''[429 Too Many Requests] quota exceeded'') \<and>
   redis_error failing_indexed_env = None \<and>
   fst (processQuery failing_indexed_env ''rates'' ''s1'' indexed_world)
     = Inr \<lparr>response =
     ''I apologize, but I'm currently experiencing API limitations. However, I can provide you with some relevant information based on the news articles I have:\<newline>\<newline>'' @
     ''Here are some relevant news articles I found:\<newline>\<newline>'' @
     ''1. **Central Bank raises rates**\<newline>'' @
     ''   Rates rose.\<newline>'' @
     ''   Source: Wire\<newline>'' @
     ''   Read more: https://news.example/a\<newline>'' @
     ''   Relevance: 88%\<newline>\<newline>'' @
     ''2. **News Article**\<newline>'' @
     ''   Relevance: 50%\<newline>\<newline>'' @
     ''Based on these 2 relevant articles, I can help answer questions about recent technology developments, news trends, and current events. Please try asking more specific questions about the topics mentioned above.'',
            sources =
              [\<lparr>ref_title = ''Central Bank raises rates'', ref_url = ''https://news.example/a'', ref_score = 0.875\<rparr>,
               \<lparr>ref_title = ''News Article'', ref_url = [], ref_score = 0.5\<rparr>]\<rparr>"
proof -
  let ?ctx = "''Rates rose by 25 basis points.\<newline>\<newline>A new accelerator chip.''"
  let ?w1 = "snd (retrieve failing_indexed_env ''rates'' indexed_world)"
  have r: "retrieve failing_indexed_env ''rates'' indexed_world = (Inr (?ctx, sample_docs), ?w1)"
    using sample_retrieve by (metis prod.collapse)
  have g: "generateContent failing_indexed_env (choose_prompt (svc ?w1) ''rates'' ?ctx)
             = Inl (Error ''[429 Too Many Requests] quota exceeded'')"
    by (simp add: failing_indexed_env_def)
  have u: "redis_error failing_indexed_env = None"
    by (simp add: failing_indexed_env_def embedding_env_def sample_env_def)
  note t = processQuery_generator_failure [OF r g, of "''s1''"]
  have v: "fst (processQuery failing_indexed_env ''rates'' ''s1'' indexed_world)
     = Inr \<lparr>response = createFallbackResponse failing_indexed_env ''rates'' sample_docs,
            sources = map source_of sample_docs\<rparr>"
    by (rule mp [OF conjunct1 [OF t] conjI [OF degradable_429 u]])
  show ?thesis
    by (intro conjI) (rule r g degradable_429 u v [unfolded sample_fallback_text sample_sources])+
qed

text \<open>
  C1 as stated fails when the key-value store rejects the append: the generator's error is
  degradable, yet \<open>processQuery\<close> throws.
\<close>

theorem fallback_lost_when_append_fails_counterexample:
  "generateContent store_down_env (createGeneralPrompt ''hi'')
     = Inl (Error ''[429 Too Many Requests] quota exceeded'') \<and>
   degradable (Error ''[429 Too Many Requests] quota exceeded'') \<and>
   fst (processQuery store_down_env ''hi'' ''s1'' memory_world) = Inl (Error ''The client is closed'')"
  by (simp add: degradable_429 processQuery_def retrieve_def generate_answer_def lPush_def emit_def Let_def
        store_down_env_def rate_limited_env_def sample_env_def memory_world_def)

section \<open>Streaming\<close>

lemma delivered_chunks_append: "delivered_chunks (xs @ ys) = delivered_chunks xs @ delivered_chunks ys"
  by (simp add: delivered_chunks_def)

lemma delivered_chunks_OnChunk: "delivered_chunks (map OnChunk cs) = cs"
  by (induction cs) (simp_all add: delivered_chunks_def)

lemma delivered_chunks_Nil: "delivered_chunks [] = []"
  by (simp add: delivered_chunks_def)

lemma delivered_chunks_Cons:
  "delivered_chunks (ev # tr) = (case ev of OnChunk c \<Rightarrow> [c] | _ \<Rightarrow> []) @ delivered_chunks tr"
  by (simp add: delivered_chunks_def)

lemma stream_answer_integrity:
  assumes "stream_answer e q c ds w = (Inr full, w1)"
    and "snd (generateContentStream e (choose_prompt (svc w) q c)) = None \<or>
         concat (fst (generateContentStream e (choose_prompt (svc w) q c))) = []"
  shows "concat (delivered_chunks (trace w1)) = concat (delivered_chunks (trace w)) @ full"
  using assms
  by (auto simp: stream_answer_def Let_def consume_stream_eq emit_def delivered_chunks_append
        delivered_chunks_OnChunk delivered_chunks_Cons delivered_chunks_Nil
      split: prod.splits option.splits if_splits)

text \<open>
  C2 at a stream that delivers one fragment and then fails with a degradable error: the
  call completes, \<open>onChunk\<close> has received the fragment and then the whole templated answer,
  \<open>onComplete\<close> receives the templated answer alone, and the concatenation of the fragments
  is not the completed text.
\<close>

theorem streaming_midstream_failure:
  "fst (processQueryWithStreaming broken_stream_env ''hi'' ''s1'' memory_world) = Inr () \<and>
   delivered_chunks (trace (snd (processQueryWithStreaming broken_stream_env ''hi'' ''s1'' memory_world)))
     = [''Partial '', createFallbackResponse broken_stream_env ''hi'' []] \<and>
   completions (trace (snd (processQueryWithStreaming broken_stream_env ''hi'' ''s1'' memory_world)))
     = [\<lparr>response = createFallbackResponse broken_stream_env ''hi'' [], sources = []\<rparr>] \<and>
   concat (delivered_chunks (trace (snd (processQueryWithStreaming broken_stream_env ''hi'' ''s1'' memory_world))))
     \<noteq> createFallbackResponse broken_stream_env ''hi'' []"
  by (simp add: processQueryWithStreaming_def retrieve_def stream_answer_def lPush_def emit_def Let_def
        broken_stream_env_def sample_env_def memory_world_def degradable_def message_def
        delivered_chunks_def completions_def)

section \<open>Blank messages\<close>

text \<open>The HTTP route answers a missing, empty or all-blank message with status 400 and calls nothing.\<close>

lemma post_message_rejects_blank:
  "blank m \<Longrightarrow> post_message c e uuid m sid w = (Status400 ''Message is required'', w)"
  by (simp add: post_message_def)

lemma blank_spaces: "blank (Some ''   '')" "blank (Some [])" "blank None"
  by (simp_all add: blank_def trim_def is_space_def)

text \<open>
  With the in-memory stand-in as store client the socket handler fails at its first store
  call, whatever the message, and calls nothing else.
\<close>

lemma on_chat_message_memory_client:
  "memory_client c \<Longrightarrow>
   on_chat_message c e sid msg w = (Inl (TypeError ''redisClient.lPush is not a function''), w)"
  by (simp add: on_chat_message_def client_env_def lPush_def)

lemma sample_config_client: "\<not> memory_client sample_config" "client_env sample_config e = e"
  by (simp_all add: client_env_def memory_client_def sample_config_def)

text \<open>
  C8 at the socket handler of a server whose store client is the Redis client (\<open>REDIS_URL\<close>
  set, \<open>USE_MEMORY_STORAGE\<close> and \<open>QDRANT_URL\<close> unset): a message of three spaces is not
  rejected; it is stored and the generator is called with a prompt built from it.
\<close>

theorem blank_message_reaches_generator:
  "blank (Some ''   '') \<and> \<not> memory_client sample_config \<and>
   useMemoryStorage (new_RAGService sample_config) \<and>
   fst (on_chat_message sample_config sample_env ''s1'' ''   '' memory_world) = Inr () \<and>
   trace (snd (on_chat_message sample_config sample_env ''s1'' ''   '' memory_world))
     = [LPush ''chat:s1'' (user_message sample_env ''   ''),
        GenerateContentStream (createGeneralPrompt ''   ''),
        OnChunk ''Fi'', OnChunk ''ne.'',
        LPush ''chat:s1'' (assistant_message sample_env ''Fine.'' []),
        OnComplete \<lparr>response = ''Fine.'', sources = []\<rparr>]"
  by (simp add: blank_spaces sample_config_client on_chat_message_def new_RAGService_def
        processQueryWithStreaming_def retrieve_def stream_answer_def choose_prompt_def lPush_def emit_def
        Let_def sample_env_def memory_world_def)
   (simp add: sample_config_def)

end
